theory Spec2Isabelle
  imports Main
begin

section \<open>Text\<close>

text \<open>
  The executor works on JavaScript strings. A string is modelled as a \<open>char list\<close>, one
  \<open>char\<close> per code unit, which covers the code units U+0000 to U+00FF; \<open>length\<close> counts code
  units as \<open>String.prototype.length\<close> does. The operations below are the ones the source
  calls: \<open>startsWith\<close>, \<open>includes\<close>, \<open>trim\<close>, \<open>toUpperCase\<close>, \<open>slice(-n)\<close>, \<open>slice(0, -1)\<close>
  and the decimal rendering of a number inside a template literal.
\<close>

abbreviation dq :: char where
  "dq \<equiv> CHR 0x22"

abbreviation LF :: char where
  "LF \<equiv> CHR 0x0A"

abbreviation CR :: char where
  "CR \<equiv> CHR 0x0D"

abbreviation BS :: char where
  "BS \<equiv> CHR 0x08"

abbreviation ESC :: char where
  "ESC \<equiv> CHR 0x1B"

fun startsWith :: "string \<Rightarrow> string \<Rightarrow> bool" where
  "startsWith s [] = True"
| "startsWith [] (p # ps) = False"
| "startsWith (c # cs) (p # ps) = (c = p \<and> startsWith cs ps)"

text \<open>\<open>s.includes(pat)\<close>: \<open>pat\<close> occurs in \<open>s\<close> as a contiguous run.\<close>

fun includes_str :: "string \<Rightarrow> string \<Rightarrow> bool" where
  "includes_str [] pat = startsWith [] pat"
| "includes_str (c # cs) pat = (startsWith (c # cs) pat \<or> includes_str cs pat)"

text \<open>
  White space and line terminators of ECMAScript that lie in the modelled range: TAB, LF, VT,
  FF, CR, SPACE and NBSP. \<open>trim\<close> strips them from both ends.
\<close>

definition isWhiteSpace :: "char \<Rightarrow> bool" where
  "isWhiteSpace c =
     (c = CHR 0x09 \<or> c = LF \<or> c = CHR 0x0B \<or> c = CHR 0x0C \<or> c = CR \<or> c = CHR 0x20 \<or> c = CHR 0xA0)"

definition trim :: "string \<Rightarrow> string" where
  "trim s = rev (dropWhile isWhiteSpace (rev (dropWhile isWhiteSpace s)))"

text \<open>
  \<open>toUpperCase\<close> on the modelled code units: a to z, the accented letters 0xE0 to 0xFE
  (0xF7, the division sign, is no letter), and the sharp s, which becomes \<open>SS\<close>. The two
  letters of this range whose capital lies beyond U+00FF (0xB5 and 0xFF) cannot be written in a
  string of this model and are left as they are.
\<close>

definition upperUnits :: "char \<Rightarrow> string" where
  "upperUnits c =
     (let n = (of_char c :: nat)
      in if 97 \<le> n \<and> n \<le> 122 then [''ABCDEFGHIJKLMNOPQRSTUVWXYZ'' ! (n - 97)]
         else if n = 223 then ''SS''
         else if 224 \<le> n \<and> n \<le> 254 \<and> n \<noteq> 247 then [char_of (n - 32)]
         else [c])"

definition toUpperCase :: "string \<Rightarrow> string" where
  "toUpperCase s = concat (map upperUnits s)"

text \<open>\<open>s.slice(-n)\<close>: the last \<open>n\<close> code units of \<open>s\<close>, all of \<open>s\<close> when it is shorter.\<close>

definition slice_last :: "nat \<Rightarrow> string \<Rightarrow> string" where
  "slice_last n s = drop (length s - n) s"

definition digit :: "nat \<Rightarrow> char" where
  "digit d = ''0123456789'' ! d"

function show_nat :: "nat \<Rightarrow> string" where
  "show_nat n = (if n < 10 then [digit n] else show_nat (n div 10) @ [digit (n mod 10)])"
  by pat_completeness auto
termination
  by (relation "measure id") auto

declare show_nat.simps [simp del]

definition show_int :: "int \<Rightarrow> string" where
  "show_int i = (if i < 0 then CHR ''-'' # show_nat (nat (- i)) else show_nat (nat i))"

text \<open>\<open>stdout.rows\<close> and \<open>stdout.columns\<close> are numbers or \<open>undefined\<close>.\<close>

definition show_dim :: "nat option \<Rightarrow> string" where
  "show_dim d = (case d of None \<Rightarrow> ''undefined'' | Some n \<Rightarrow> show_nat n)"

section \<open>Classification of stream chunks\<close>

text \<open>
  The regular expression \<open>/^[{"].*stream.*true.*[}"]$/\<close> of the data handler, applied to the
  trimmed chunk: the first character is a brace or a double quote, the last one a closing
  brace or a double quote, no line terminator stands between them (the dot does not match
  one), and between them \<open>stream\<close> occurs with \<open>true\<close> somewhere after it.
\<close>

definition lineTerminator :: "char \<Rightarrow> bool" where
  "lineTerminator c = (c = LF \<or> c = CR)"

definition streamThenTrue :: "string \<Rightarrow> bool" where
  "streamThenTrue mid =
     list_ex (\<lambda>i. startsWith (drop i mid) ''stream'' \<and> includes_str (drop (i + 6) mid) ''true'')
       [0 ..< Suc (length mid)]"

definition matchesStreamTrue :: "string \<Rightarrow> bool" where
  "matchesStreamTrue t =
     (case t of
        [] \<Rightarrow> False
      | c # rest \<Rightarrow>
          (c = CHR ''{'' \<or> c = dq) \<and> rest \<noteq> [] \<and> (last rest = CHR ''}'' \<or> last rest = dq) \<and>
          list_all (\<lambda>x. \<not> lineTerminator x) (butlast rest) \<and> streamThenTrue (butlast rest))"

definition isDockerMetadata :: "string \<Rightarrow> bool" where
  "isDockerMetadata data =
     (includes_str data (dq # ''stream'' @ dq # '':'') \<or>
      includes_str data (dq # ''hijack'' @ dq # '':'') \<or>
      includes_str data (dq # ''stderr'' @ dq # '':'') \<or>
      includes_str data (dq # ''stdin'' @ dq # '':'') \<or>
      includes_str data (dq # ''stdout'' @ dq # '':'') \<or>
      includes_str data ''stream:true'' \<or>
      includes_str data ''hijack:true'' \<or>
      includes_str data ''stdin:true'' \<or>
      includes_str data ''stdout:true'' \<or>
      includes_str data ''stderr:true'' \<or>
      (startsWith data ''{'' \<and> includes_str data (dq # '':true}'')) \<or>
      (includes_str data (CHR ''{'' # [dq]) \<and> includes_str data (dq # '':true'')) \<or>
      matchesStreamTrue (trim data))"

definition hasPrompt :: "string \<Rightarrow> bool" where
  "hasPrompt data =
     (includes_str data ''root@'' \<or> includes_str data ''# '' \<or> includes_str data ''$ '')"

definition hasOutput :: "string \<Rightarrow> bool" where
  "hasOutput data = (length (trim data) > 10 \<and> \<not> isDockerMetadata data)"

definition hasNewline :: "string \<Rightarrow> bool" where
  "hasNewline data = includes_str data [LF]"

text \<open>The condition under which the data handler resolves the ready promise.\<close>

definition signalsReady :: "string \<Rightarrow> bool" where
  "signalsReady data = (hasPrompt data \<or> (hasOutput data \<and> hasNewline data))"

text \<open>
  The reading of the readiness heuristic in the specification's words, for comparison with
  \<open>signalsReady\<close>: a prompt fragment, or more than ten non-whitespace characters together
  with a line break.
\<close>

definition spec_signalsReady :: "string \<Rightarrow> bool" where
  "spec_signalsReady data =
     (hasPrompt data \<or>
      (length (filter (\<lambda>c. \<not> isWhiteSpace c) data) > 10 \<and> list_ex lineTerminator data))"

section \<open>The executor and its environment\<close>

text \<open>
  A container and a stream are opaque handles. The ready promise is identified by a number;
  \<open>readyResolve\<close> holds the number of the promise it resolves, or \<open>None\<close> for \<open>null\<close>.
  An error raised by the runtime client carries a message and, for an HTTP answer, a status
  code. The errors the executor raises itself are told apart by their text in the source and
  by their constructor here: \<open>DockerNotRunning\<close> and the two \<open>Lost...\<close> messages contain the
  phrases that the handler in \<open>runContainer\<close> looks for.
  The handlers of process signals (\<open>setupProcessSignals\<close>) end the process; they are not
  part of what follows.
\<close>

type_synonym handle = nat

type_synonym promise = nat

record js_error =
  message :: string
  statusCode :: "nat option"

datatype failure =
    AlreadyActive
  | DockerNotRunning
  | LostDuringPull
  | LostDuringCreate
  | Runtime js_error

definition connectionLost :: "js_error \<Rightarrow> bool" where
  "connectionLost e = (includes_str (message e) ''ENOENT'' \<or> includes_str (message e) ''docker_engine'')"

definition isDockerError :: "failure \<Rightarrow> bool" where
  "isDockerError f =
     (case f of
        Runtime e \<Rightarrow>
          includes_str (message e) ''Docker Engine is not running'' \<or>
          includes_str (message e) ''Lost connection to Docker Engine''
      | AlreadyActive \<Rightarrow> False
      | _ \<Rightarrow> True)"

text \<open>The lines written with \<open>console.log\<close> and \<open>console.error\<close>, one constructor per line.\<close>

datatype log_line =
    LogPulling string
  | LogPulled
  | LogTerminalSize "nat option" "nat option"
  | LogStarting
  | LogTip
  | LogEndedByUser
  | LogEndedUnexpectedly
  | LogSessionEnded
  | LogSessionEndedError
  | LogReady
  | LogTTYError string
  | LogInterrupt
  | LogDockerError
  | LogErrorText failure
  | LogPleaseStart
  | LogAnErrorOccurred failure
  | LogCleaningPartial
  | LogOperationFailed
  | LogCouldNotConnect
  | LogCleanupError string

datatype term_out =
    Write string
  | WriteCommandPrompt
  | Console log_line

datatype docker_call =
    Ping
  | Pull string
  | Create string
  | Start handle
  | Attach handle
  | StopContainer handle
  | Remove handle

datatype stream_op =
    StreamWrite handle string
  | StreamEndCall handle

text \<open>
  The asynchronous work that is pending between two events.

  A \<open>task\<close> waits for a timer or for the ready promise: the detached task that
  \<open>runContainer\<close> starts is at one of its \<open>await\<close>s, and \<open>ClearStatusTimer\<close> is the
  \<open>setTimeout\<close> of \<open>stop\<close>; a timer carries the milliseconds left.

  A \<open>pending\<close> entry is a call of \<open>runContainer\<close> or of \<open>destroyContainer\<close> suspended at one
  of its \<open>await\<close>s: the runtime calls of \<open>createContainer\<close> (which holds the image name in a
  local constant), the start and the attach; and in \<open>destroyContainer\<close> the ping, the stop,
  the remove and the three delays. A call of \<open>destroyContainer\<close> remembers who awaits it: the
  end handler, the error handler, the interrupt branch of the keyboard listener, or the
  \<open>catch\<close> block of \<open>runContainer\<close>. A \<open>reply\<close> is what an awaited promise settles with.
\<close>

datatype term_step = SentLines | SentColumns | SentCsr | SentClear1 | SentCup | SentClear2

datatype bg_pc =
    BgNudge nat
  | BgAwaitReady promise
  | BgSettle nat
  | BgTerm term_step nat int nat
  | BgFallback nat

datatype task =
    Bg bg_pc
  | ClearStatusTimer nat

datatype caller = EndHandler | ErrorHandler | InterruptHandler | SpawnCatch

datatype pending =
    SpawnPing string
  | SpawnPull string
  | SpawnCreate string
  | SpawnStart
  | SpawnAttach
  | DestroyPing caller
  | DestroyUnavailable caller
  | DestroyStop caller
  | DestroyLost caller
  | DestroyRemove caller
  | DestroyFinal caller

datatype reply =
    Resolved
  | ResolvedWith handle
  | Rejected js_error

text \<open>The closure variables of one \<open>stdin\<close> listener registered by \<open>setupTTYSTDIN\<close>.\<close>

record cmd_state =
  isInCommandMode :: bool
  commandBuffer :: string

text \<open>
  The fields of \<open>DockerExecutor\<close>, followed by what its methods act on: the host terminal
  (geometry, everything written to it, raw mode), the calls made to the runtime and to the
  stream, and the pending asynchronous work. The last fields are bookkeeping: the status line
  on display, the promises resolved so far (one entry per call of the resolver), the number of
  promises created, the calls of \<open>destroyContainer\<close> and of \<open>resetState\<close>, and how each
  promise returned by \<open>runContainer\<close> was settled (\<open>None\<close> when it resolved).
\<close>

record world =
  container :: "handle option"
  ttyStream :: "handle option"
  buffer :: string
  isFirstData :: bool
  shouldStop :: bool
  readyPromise :: promise
  readyResolve :: "promise option"
  imageName :: string
  listeners :: "cmd_state list"
  rows :: "nat option"
  columns :: "nat option"
  terminal :: "term_out list"
  stdinRaw :: bool
  stdinPaused :: bool
  runtime :: "docker_call list"
  streamOps :: "stream_op list"
  tasks :: "task list"
  pending :: "pending list"
  statusLine :: "string option"
  resolved :: "promise list"
  promises :: nat
  destroyCalls :: nat
  resetCalls :: nat
  spawnSettled :: "failure option list"

text \<open>The constructor, in a TTY: one unresolved ready promise, nothing held.\<close>

definition newExecutor :: "string \<Rightarrow> nat option \<Rightarrow> nat option \<Rightarrow> world" where
  "newExecutor img r c =
     \<lparr> container = None, ttyStream = None, buffer = [], isFirstData = True, shouldStop = False,
       readyPromise = 0, readyResolve = Some 0, imageName = img, listeners = [],
       rows = r, columns = c, terminal = [], stdinRaw = False, stdinPaused = True,
       runtime = [], streamOps = [], tasks = [], pending = [], statusLine = None,
       resolved = [], promises = 1, destroyCalls = 0, resetCalls = 0, spawnSettled = [] \<rparr>"

subsection \<open>Status overlay (stdout.helper)\<close>

definition console :: "log_line \<Rightarrow> world \<Rightarrow> world" where
  "console l w = w\<lparr>terminal := terminal w @ [Console l]\<rparr>"

text \<open>
  The writes of \<open>updateStatus\<close> and of \<open>clearStatus\<close>: save the cursor, go to the last row,
  clear the line, (write the banner,) restore the cursor.
\<close>

definition statusWrites :: "nat option \<Rightarrow> string \<Rightarrow> term_out list" where
  "statusWrites r msg =
     [Write (ESC # ''[s''),
      Write (ESC # ''['' @ show_dim r @ '';1H''),
      Write (ESC # ''[2K''),
      Write (ESC # ''[46m'' @ ESC # ''[30m Status: '' @ msg @ '' '' @ ESC # ''[0m''),
      Write (ESC # ''[u'')]"

definition clearWrites :: "nat option \<Rightarrow> term_out list" where
  "clearWrites r =
     [Write (ESC # ''[s''),
      Write (ESC # ''['' @ show_dim r @ '';1H''),
      Write (ESC # ''[2K''),
      Write (ESC # ''[u'')]"

definition updateStatus :: "string \<Rightarrow> world \<Rightarrow> world" where
  "updateStatus msg w =
     w\<lparr>terminal := terminal w @ statusWrites (rows w) msg, statusLine := Some msg\<rparr>"

definition clearStatus :: "world \<Rightarrow> world" where
  "clearStatus w = w\<lparr>terminal := terminal w @ clearWrites (rows w), statusLine := None\<rparr>"

subsection \<open>Small methods\<close>

definition restoreTerminal :: "world \<Rightarrow> world" where
  "restoreTerminal w = (clearStatus w)\<lparr>stdinRaw := False, stdinPaused := True\<rparr>"

definition resetState :: "world \<Rightarrow> world" where
  "resetState w =
     w\<lparr>container := None, ttyStream := None, buffer := [], isFirstData := True,
       shouldStop := False, readyPromise := promises w, readyResolve := Some (promises w),
       promises := Suc (promises w), resetCalls := Suc (resetCalls w)\<rparr>"

definition isReady :: "world \<Rightarrow> bool" where
  "isReady w = (container w = None \<and> ttyStream w = None)"

text \<open>\<open>this.ttyStream?.write(s)\<close> and \<open>this.ttyStream?.end()\<close>.\<close>

definition sendInput :: "string \<Rightarrow> world \<Rightarrow> world" where
  "sendInput command w =
     (case ttyStream w of
        None \<Rightarrow> w
      | Some s \<Rightarrow> w\<lparr>streamOps := streamOps w @ [StreamWrite s command]\<rparr>)"

definition endStream :: "world \<Rightarrow> world" where
  "endStream w =
     (case ttyStream w of
        None \<Rightarrow> w
      | Some s \<Rightarrow> w\<lparr>streamOps := streamOps w @ [StreamEndCall s]\<rparr>)"

definition addTask :: "task \<Rightarrow> world \<Rightarrow> world" where
  "addTask t w = w\<lparr>tasks := tasks w @ [t]\<rparr>"

definition stop :: "world \<Rightarrow> world" where
  "stop w =
     endStream
       (addTask (ClearStatusTimer 2000)
         (updateStatus ''Stop command received - shutting down...'' (w\<lparr>shouldStop := True\<rparr>)))"

definition handleInternalCommand :: "string \<Rightarrow> world \<Rightarrow> world" where
  "handleInternalCommand command w =
     (if command = ''STOP'' \<or> command = ''EXIT'' \<or> command = ''QUIT'' then
        stop (updateStatus ''Stopping container...'' w)
      else if command = ''HELP'' \<or> command = ''?'' then
        updateStatus
          ''Commands: STOP/EXIT/QUIT - Stop container, HELP/? - Show help. Use F12 to enter command mode.''
          w
      else if command = ''STATUS'' then
        updateStatus
          (''Container running. Buffer size: '' @ show_nat (length (buffer w)) @ '' chars. TTY active.'')
          w
      else if command = ''CLEAR'' then
        updateStatus ''Buffer cleared.'' (w\<lparr>buffer := []\<rparr>)
      else if trim command = [] then
        updateStatus ''Command mode cancelled.'' w
      else
        updateStatus (''Unknown command: '' @ command @ ''. Available: STOP, HELP, STATUS, CLEAR'') w)"

subsection \<open>The data handler of the stream\<close>

text \<open>
  The handler has no \<open>await\<close>, so it runs as one step. \<open>onDataCallback\<close> is never set (its
  setter is commented out in the source) and is left out.
\<close>

definition onData :: "string \<Rightarrow> world \<Rightarrow> world" where
  "onData data w =
     (if isDockerMetadata data then w
      else
        let w1 = (if isFirstData w \<and> length (trim data) > 0 then w\<lparr>isFirstData := False\<rparr> else w);
            w2 = w1\<lparr>terminal := terminal w1 @ [Write data]\<rparr>;
            w3 = w2\<lparr>buffer := buffer w2 @ data\<rparr>;
            w4 = (if length (buffer w3) > 10000 then w3\<lparr>buffer := slice_last 5000 (buffer w3)\<rparr> else w3)
        in case readyResolve w4 of
             None \<Rightarrow> w4
           | Some p \<Rightarrow>
               if signalsReady data then w4\<lparr>resolved := resolved w4 @ [p], readyResolve := None\<rparr>
               else w4)"

subsection \<open>destroyContainer\<close>

text \<open>
  The method runs from one \<open>await\<close> to the next; what it does in between is a function that
  returns the \<open>await\<close> it stops at (\<open>None\<close> when it has returned) and the new state.
  \<open>destroyStart\<close> is the method up to its first \<open>await\<close>: the ping has been sent.
  The method never throws: its inner handler returns or rethrows into the outer one, and the
  outer one only logs. \<open>this.container\<close> is read afresh at the stop and at the remove.
\<close>

definition call :: "docker_call \<Rightarrow> world \<Rightarrow> world" where
  "call c w = w\<lparr>runtime := runtime w @ [c]\<rparr>"

definition addPending :: "pending \<Rightarrow> world \<Rightarrow> world" where
  "addPending p w = w\<lparr>pending := pending w @ [p]\<rparr>"

definition destroyStart :: "world \<Rightarrow> world" where
  "destroyStart w =
     call Ping (updateStatus ''Destroying container...'' (w\<lparr>destroyCalls := Suc (destroyCalls w)\<rparr>))"

text \<open>The outer \<open>catch\<close> of the method; the delay of 1500 ms follows.\<close>

definition destroyCaught :: "caller \<Rightarrow> js_error \<Rightarrow> world \<Rightarrow> pending option \<times> world" where
  "destroyCaught who e w =
     (Some (DestroyFinal who),
      if connectionLost e then
        console LogCouldNotConnect (updateStatus ''Docker connection lost during cleanup'' w)
      else if statusCode e \<noteq> Some 409 then console (LogCleanupError (message e)) w
      else w)"

text \<open>\<open>await this.container?.remove()\<close> and \<open>await this.container?.stop()\<close>.\<close>

definition destroyRemove :: "caller \<Rightarrow> world \<Rightarrow> pending option \<times> world" where
  "destroyRemove who w =
     (case container w of
        None \<Rightarrow> (Some (DestroyFinal who), updateStatus ''Container destroyed'' w)
      | Some c \<Rightarrow> (Some (DestroyRemove who), call (Remove c) w))"

definition destroyStop :: "caller \<Rightarrow> world \<Rightarrow> pending option \<times> world" where
  "destroyStop who w =
     (case container w of
        None \<Rightarrow> destroyRemove who w
      | Some c \<Rightarrow> (Some (DestroyStop who), call (StopContainer c) w))"

text \<open>
  What the caller does when \<open>destroyContainer\<close> has returned: reset the state and log; the
  \<open>catch\<close> block of \<open>runContainer\<close> is then at its end, and the promise of that
  \<open>runContainer\<close> resolves.
\<close>

definition spawnReturn :: "world \<Rightarrow> world" where
  "spawnReturn w = w\<lparr>spawnSettled := spawnSettled w @ [None]\<rparr>"

definition afterDestroy :: "caller \<Rightarrow> world \<Rightarrow> world" where
  "afterDestroy who w =
     (case who of
        EndHandler \<Rightarrow> console LogSessionEnded (resetState w)
      | ErrorHandler \<Rightarrow> console LogSessionEndedError (resetState w)
      | InterruptHandler \<Rightarrow> console LogSessionEnded (resetState w)
      | SpawnCatch \<Rightarrow> spawnReturn (console LogOperationFailed (resetState w)))"

subsection \<open>createContainer and runContainer\<close>

text \<open>
  The \<open>catch\<close> block of \<open>runContainer\<close>, up to the \<open>await\<close> of \<open>destroyContainer\<close> or, when
  no container is held, to its end. It has no \<open>throw\<close>.
\<close>

definition spawnCaught :: "failure \<Rightarrow> world \<Rightarrow> pending option \<times> world" where
  "spawnCaught f w =
     (let w1 = clearStatus w;
          w2 = (if isDockerError f then
                  console LogPleaseStart (console (LogErrorText f) (console LogDockerError w1))
                else console (LogAnErrorOccurred f) w1);
          w3 = restoreTerminal w2
      in if container w3 \<noteq> None then
           (Some (DestroyPing SpawnCatch), destroyStart (console LogCleaningPartial w3))
         else (None, spawnReturn (console LogOperationFailed (resetState w3))))"

definition setupTTYSTDIN :: "world \<Rightarrow> world" where
  "setupTTYSTDIN w =
     w\<lparr>stdinRaw := True, stdinPaused := False,
       listeners := listeners w @ [\<lparr>isInCommandMode = False, commandBuffer = []\<rparr>]\<rparr>"

text \<open>
  The end of the \<open>try\<close> block: the keyboard listener is registered, the detached task starts
  and stops at its first delay, and the promise of \<open>runContainer\<close> resolves.
\<close>

definition sessionStarted :: "world \<Rightarrow> world" where
  "sessionStarted w = spawnReturn (addTask (Bg (BgNudge 1000)) (setupTTYSTDIN w))"

text \<open>\<open>setupTTYStream\<close>: \<open>this.ttyStream = await this.container?.attach(...)\<close>.\<close>

definition setupTTYStream :: "world \<Rightarrow> pending option \<times> world" where
  "setupTTYStream w =
     (case container w of
        None \<Rightarrow> (None, sessionStarted (w\<lparr>ttyStream := None\<rparr>))
      | Some c \<Rightarrow> (Some SpawnAttach, call (Attach c) w))"

text \<open>\<open>runContainer\<close> from the return of the start to the attach.\<close>

definition afterStart :: "world \<Rightarrow> pending option \<times> world" where
  "afterStart w =
     (let w1 = updateStatus ''Container started - TTY session active'' w
      in setupTTYStream
           (console LogTip (console LogStarting (console (LogTerminalSize (columns w1) (rows w1)) w1))))"

text \<open>\<open>runContainer\<close> from the return of \<open>createContainer\<close>: \<open>await this.container?.start()\<close>.\<close>

definition startContainer :: "world \<Rightarrow> pending option \<times> world" where
  "startContainer w =
     (let w1 = updateStatus ''Starting container...'' w
      in case container w1 of
           None \<Rightarrow> afterStart w1
         | Some c \<Rightarrow> (Some SpawnStart, call (Start c) w1))"

text \<open>
  \<open>resume p r w\<close>: the promise that the entry \<open>p\<close> awaits settles with \<open>r\<close>. The result is
  \<open>None\<close> when \<open>r\<close> is no answer to that call (a delay only resolves; a create or an attach
  resolves with a handle, the other runtime calls without).
\<close>

fun resume :: "pending \<Rightarrow> reply \<Rightarrow> world \<Rightarrow> (pending option \<times> world) option" where
  "resume (SpawnPing img) Resolved w =
     Some (Some (SpawnPull img),
           call (Pull img) (updateStatus (''Pulling image: '' @ img @ ''...'') (console (LogPulling img) w)))"
| "resume (SpawnPing img) (Rejected e) w = Some (spawnCaught DockerNotRunning (clearStatus w))"
| "resume (SpawnPull img) Resolved w =
     Some (Some (SpawnCreate img),
           call (Create img) (updateStatus ''Creating container...'' (console LogPulled w)))"
| "resume (SpawnPull img) (Rejected e) w =
     Some (spawnCaught (if connectionLost e then LostDuringPull else Runtime e) (clearStatus w))"
| "resume (SpawnCreate img) (ResolvedWith c) w =
     Some (startContainer ((updateStatus ''Container created'' w)\<lparr>container := Some c\<rparr>))"
| "resume (SpawnCreate img) (Rejected e) w =
     Some (spawnCaught (if connectionLost e then LostDuringCreate else Runtime e) (clearStatus w))"
| "resume SpawnStart Resolved w = Some (afterStart w)"
| "resume SpawnStart (Rejected e) w = Some (spawnCaught (Runtime e) w)"
| "resume SpawnAttach (ResolvedWith s) w = Some (None, sessionStarted (w\<lparr>ttyStream := Some s\<rparr>))"
| "resume SpawnAttach (Rejected e) w = Some (spawnCaught (Runtime e) w)"
| "resume (DestroyPing who) Resolved w = Some (destroyStop who w)"
| "resume (DestroyPing who) (Rejected e) w =
     Some (Some (DestroyUnavailable who),
           updateStatus ''Docker not available - container may already be cleaned up'' w)"
| "resume (DestroyUnavailable who) Resolved w = Some (None, afterDestroy who (clearStatus w))"
| "resume (DestroyStop who) Resolved w = Some (destroyRemove who w)"
| "resume (DestroyStop who) (Rejected e) w =
     Some (if statusCode e = Some 304 then destroyRemove who w
           else if connectionLost e then
             (Some (DestroyLost who),
              updateStatus ''Docker connection lost - container cleanup skipped'' w)
           else destroyCaught who e w)"
| "resume (DestroyLost who) Resolved w = Some (None, afterDestroy who (clearStatus w))"
| "resume (DestroyRemove who) Resolved w =
     Some (Some (DestroyFinal who), updateStatus ''Container destroyed'' w)"
| "resume (DestroyRemove who) (Rejected e) w = Some (destroyCaught who e w)"
| "resume (DestroyFinal who) Resolved w = Some (None, afterDestroy who (clearStatus w))"
| "resume p r w = None"

text \<open>
  The entry number \<open>k\<close> of the pending calls is resumed with \<open>r\<close>. It keeps its place while
  it goes on to another \<open>await\<close> and leaves the list when the method has returned.
\<close>

definition settle :: "nat \<Rightarrow> reply \<Rightarrow> world \<Rightarrow> world" where
  "settle k r w =
     (if k < length (pending w) then
        case resume (pending w ! k) r w of
          None \<Rightarrow> w
        | Some (None, w') \<Rightarrow> w'\<lparr>pending := take k (pending w') @ drop (Suc k) (pending w')\<rparr>
        | Some (Some p, w') \<Rightarrow> w'\<lparr>pending := (pending w')[k := p]\<rparr>
      else w)"

text \<open>
  \<open>runContainer\<close> up to the first \<open>await\<close>, which is the ping of \<open>createContainer\<close>, and
  \<open>runNewContainer\<close>, which throws before anything else when a handle is held.
\<close>

definition runContainer :: "world \<Rightarrow> world" where
  "runContainer w =
     (let w1 = updateStatus ''Initializing container...'' w
      in addPending (SpawnPing (imageName w1))
           (call Ping (updateStatus ''Checking Docker Engine availability...'' w1)))"

definition runNewContainer :: "string option \<Rightarrow> world \<Rightarrow> failure option \<times> world" where
  "runNewContainer img w =
     (if \<not> isReady w then (Some AlreadyActive, w)
      else
        (None,
         runContainer (case img of None \<Rightarrow> w | Some i \<Rightarrow> if i = [] then w else w\<lparr>imageName := i\<rparr>)))"

subsection \<open>End and error of the stream, interrupt from the keyboard\<close>

text \<open>A handler that calls \<open>destroyContainer\<close> is suspended with it, as a new pending entry.\<close>

definition beginDestroy :: "caller \<Rightarrow> world \<Rightarrow> world" where
  "beginDestroy who w = addPending (DestroyPing who) (destroyStart w)"

definition onEnd :: "world \<Rightarrow> world" where
  "onEnd w =
     (let w1 = clearStatus w;
          w2 = console (if shouldStop w1 then LogEndedByUser else LogEndedUnexpectedly) w1;
          w3 = restoreTerminal w2
      in if container w3 \<noteq> None then beginDestroy EndHandler w3
         else console LogSessionEnded (resetState w3))"

definition onError :: "js_error \<Rightarrow> world \<Rightarrow> world" where
  "onError e w =
     (let w1 = restoreTerminal (console (LogTTYError (message e)) (clearStatus w))
      in if container w1 \<noteq> None then beginDestroy ErrorHandler w1
         else console LogReady (resetState w1))"

definition onInterrupt :: "world \<Rightarrow> world" where
  "onInterrupt w =
     (let w1 = restoreTerminal (endStream (console LogInterrupt (clearStatus w)))
      in if container w1 \<noteq> None then beginDestroy InterruptHandler w1
         else console LogReady (resetState w1))"

subsection \<open>The keyboard listener\<close>

text \<open>
  \<open>data[0]\<close> of a chunk of keyboard bytes. The chunks are modelled on 7-bit bytes, where
  \<open>toString\<close> is the identity. \<open>onStdin\<close> is the listener that \<open>setupTTYSTDIN\<close> registers,
  acting on its own two closure variables and on the executor.
\<close>

definition firstByte :: "string \<Rightarrow> nat option" where
  "firstByte data = (case data of [] \<Rightarrow> None | c # _ \<Rightarrow> Some (of_char c))"

definition printable :: "string \<Rightarrow> bool" where
  "printable data = (case firstByte data of None \<Rightarrow> False | Some b \<Rightarrow> 32 \<le> b \<and> b \<le> 126)"

definition stdoutWrite :: "string \<Rightarrow> world \<Rightarrow> world" where
  "stdoutWrite s w = w\<lparr>terminal := terminal w @ [Write s]\<rparr>"

definition commandOff :: cmd_state where
  "commandOff = \<lparr>isInCommandMode = False, commandBuffer = []\<rparr>"

definition onStdin :: "string \<Rightarrow> cmd_state \<times> world \<Rightarrow> cmd_state \<times> world" where
  "onStdin data lw =
     (case lw of (l, w) \<Rightarrow>
        if firstByte data = Some 3 then (l, onInterrupt w)
        else if data = ESC # ''[24~'' then
          (\<lparr>isInCommandMode = True, commandBuffer = []\<rparr>, w\<lparr>terminal := terminal w @ [WriteCommandPrompt]\<rparr>)
        else if isInCommandMode l then
          (if firstByte data = Some 127 \<or> firstByte data = Some 8 then
             (if length (commandBuffer l) > 0 then
                (l\<lparr>commandBuffer := butlast (commandBuffer l)\<rparr>, stdoutWrite (BS # CHR '' '' # [BS]) w)
              else (commandOff, stdoutWrite [LF] w))
           else if firstByte data = Some 13 \<or> firstByte data = Some 10 then
             (commandOff,
              handleInternalCommand (toUpperCase (trim (commandBuffer l))) (stdoutWrite [LF] w))
           else if printable data then
             (l\<lparr>commandBuffer := commandBuffer l @ data\<rparr>, stdoutWrite data w)
           else (l, w))
        else (l, sendInput data w))"

text \<open>Every registered listener receives the chunk, in the order of registration.\<close>

fun emitStdin :: "string \<Rightarrow> cmd_state list \<Rightarrow> world \<Rightarrow> cmd_state list \<times> world" where
  "emitStdin data [] w = ([], w)"
| "emitStdin data (l # ls) w =
     (case onStdin data (l, w) of
        (l', w') \<Rightarrow> (case emitStdin data ls w' of (ls', w'') \<Rightarrow> (l' # ls', w'')))"

definition stdinData :: "string \<Rightarrow> world \<Rightarrow> world" where
  "stdinData data w =
     (if stdinPaused w then w
      else case emitStdin data (listeners w) w of (ls, w') \<Rightarrow> w'\<lparr>listeners := ls\<rparr>)"

subsection \<open>The detached task of runContainer and the timers\<close>

text \<open>
  The task started at the end of \<open>runContainer\<close>, in the order of its source:
  \<open>await delay(1000)\<close>; status, a carriage return to the stream; \<open>await this.ready()\<close>;
  \<open>await delay(500)\<close>; \<open>setupTerminalReservation\<close>; \<open>await delay(5000)\<close>; and only then the
  fallback that resolves the ready promise when the resolver is still there.
  \<open>remaining\<close> is the time left on the timer a task waits for (\<open>None\<close> when it waits for the
  ready promise), \<open>expire\<close> is what the task does when its timer is due, up to its next
  \<open>await\<close>.
\<close>

fun remaining :: "task \<Rightarrow> nat option" where
  "remaining (ClearStatusTimer k) = Some k"
| "remaining (Bg (BgNudge k)) = Some k"
| "remaining (Bg (BgAwaitReady p)) = None"
| "remaining (Bg (BgSettle k)) = Some k"
| "remaining (Bg (BgTerm st k u c)) = Some k"
| "remaining (Bg (BgFallback k)) = Some k"

fun advance :: "nat \<Rightarrow> task \<Rightarrow> task" where
  "advance d (ClearStatusTimer k) = ClearStatusTimer (k - d)"
| "advance d (Bg (BgNudge k)) = Bg (BgNudge (k - d))"
| "advance d (Bg (BgAwaitReady p)) = Bg (BgAwaitReady p)"
| "advance d (Bg (BgSettle k)) = Bg (BgSettle (k - d))"
| "advance d (Bg (BgTerm st k u c)) = Bg (BgTerm st (k - d) u c)"
| "advance d (Bg (BgFallback k)) = Bg (BgFallback (k - d))"

definition actualRows :: "world \<Rightarrow> nat" where
  "actualRows w = (case rows w of None \<Rightarrow> 24 | Some n \<Rightarrow> if n = 0 then 24 else n)"

definition actualCols :: "world \<Rightarrow> nat" where
  "actualCols w = (case columns w of None \<Rightarrow> 80 | Some n \<Rightarrow> if n = 0 then 80 else n)"

text \<open>\<open>setupTerminalReservation\<close> up to its first delay, or to the delay that follows it.\<close>

definition setupTerminalReservation :: "world \<Rightarrow> world" where
  "setupTerminalReservation w =
     (if ttyStream w = None then addTask (Bg (BgFallback 5000)) w
      else
        let u = int (actualRows w) - 2;
            c = actualCols w;
            w1 = updateStatus ''Configuring terminal to reserve status area...'' w;
            w2 = sendInput (''export LINES='' @ show_int u @ [CR]) w1
        in addTask (Bg (BgTerm SentLines 200 u c)) w2)"

fun expire :: "task \<Rightarrow> world \<Rightarrow> world" where
  "expire (ClearStatusTimer k) w = clearStatus w"
| "expire (Bg (BgNudge k)) w =
     (let w1 = sendInput [CR] (updateStatus ''Getting initial prompt...'' w)
      in addTask (Bg (BgAwaitReady (readyPromise w1))) w1)"
| "expire (Bg (BgAwaitReady p)) w = addTask (Bg (BgAwaitReady p)) w"
| "expire (Bg (BgSettle k)) w = setupTerminalReservation w"
| "expire (Bg (BgTerm SentLines k u c)) w =
     addTask (Bg (BgTerm SentColumns 200 u c)) (sendInput (''export COLUMNS='' @ show_nat c @ [CR]) w)"
| "expire (Bg (BgTerm SentColumns k u c)) w =
     addTask (Bg (BgTerm SentCsr 300 u c)) (sendInput (''tput csr 0 '' @ show_int (u - 1) @ [CR]) w)"
| "expire (Bg (BgTerm SentCsr k u c)) w =
     addTask (Bg (BgTerm SentClear1 200 u c)) (sendInput (''clear'' @ [CR]) w)"
| "expire (Bg (BgTerm SentClear1 k u c)) w =
     addTask (Bg (BgTerm SentCup 200 u c)) (sendInput (''tput cup 0 0'' @ [CR]) w)"
| "expire (Bg (BgTerm SentCup k u c)) w =
     addTask (Bg (BgTerm SentClear2 200 u c)) (sendInput (''clear'' @ [CR]) w)"
| "expire (Bg (BgTerm SentClear2 k u c)) w =
     addTask (Bg (BgFallback 5000))
       (updateStatus
          (''Terminal configured: '' @ show_int u @ ''x'' @ show_nat c @ '' (reserved 2 bottom lines)'') w)"
| "expire (Bg (BgFallback k)) w =
     (case readyResolve w of
        None \<Rightarrow> w
      | Some p \<Rightarrow> w\<lparr>resolved := resolved w @ [p], readyResolve := None\<rparr>)"

text \<open>
  A task awaiting a promise that has been resolved goes on, in a microtask, to its next
  \<open>await\<close>, which is \<open>delay(500)\<close>.
\<close>

fun wakeTask :: "promise list \<Rightarrow> task \<Rightarrow> task" where
  "wakeTask ps (Bg (BgAwaitReady p)) = (if p \<in> set ps then Bg (BgSettle 500) else Bg (BgAwaitReady p))"
| "wakeTask ps t = t"

definition wake :: "world \<Rightarrow> world" where
  "wake w = w\<lparr>tasks := map (wakeTask (resolved w)) (tasks w)\<rparr>"

text \<open>
  Time passes: at most \<open>n\<close> ms, and no further than the first timer that is due. The timers
  that are due then run in the order in which they were set.
\<close>

definition due :: "task \<Rightarrow> bool" where
  "due t = (remaining t = Some 0)"

definition elapse :: "nat \<Rightarrow> world \<Rightarrow> world" where
  "elapse n w =
     (let d = fold min (List.map_filter remaining (tasks w)) n;
          ts = map (advance d) (tasks w);
          w1 = w\<lparr>tasks := filter (\<lambda>t. \<not> due t) ts\<rparr>
      in wake (fold expire (filter due ts) w1))"

section \<open>Events\<close>

text \<open>
  What happens to the executor from outside: chunk, end and error of the stream, keyboard
  bytes, time passing, the settling of a promise that a pending call awaits, and the calls of
  the public methods. Every event runs to the next \<open>await\<close> of the code it wakes, so the
  states between two events are the points at which the executor can be observed. The delays
  inside \<open>destroyContainer\<close> settle like its runtime calls, at any moment; \<open>Elapse\<close> moves
  the timers of the detached task and of \<open>stop\<close>. \<open>run\<close> delivers a list of events in
  order.
\<close>

datatype event =
    StreamData string
  | StreamEnd
  | StreamError js_error
  | StdinData string
  | Elapse nat
  | Settle nat reply
  | CallStop
  | CallSendInput string
  | CallRunNewContainer "string option"

fun step :: "event \<Rightarrow> world \<Rightarrow> world" where
  "step (StreamData data) w = wake (onData data w)"
| "step StreamEnd w = onEnd w"
| "step (StreamError e) w = onError e w"
| "step (StdinData data) w = stdinData data w"
| "step (Elapse n) w = elapse n w"
| "step (Settle k r) w = settle k r w"
| "step CallStop w = stop w"
| "step (CallSendInput s) w = sendInput s w"
| "step (CallRunNewContainer img) w = snd (runNewContainer img w)"

definition run :: "event list \<Rightarrow> world \<Rightarrow> world" where
  "run es w = fold step es w"

text \<open>The events of the stream's data and of time: the two that can resolve the ready promise.\<close>

fun streamOrTimer :: "event \<Rightarrow> bool" where
  "streamOrTimer (StreamData data) = True"
| "streamOrTimer (Elapse n) = True"
| "streamOrTimer e = False"

text \<open>One keyboard listener fed a list of chunks, one after the other.\<close>

definition feed :: "string list \<Rightarrow> cmd_state \<times> world \<Rightarrow> cmd_state \<times> world" where
  "feed keys lw = fold onStdin keys lw"

section \<open>Uninterrupted spawns and teardowns\<close>

text \<open>
  The outcomes of the runtime calls of one \<open>destroyContainer\<close>, and of one \<open>runContainer\<close>
  with the cleanup of its \<open>catch\<close> block (\<open>None\<close>: the call resolves).
\<close>

record denv =
  d_ping :: "js_error option"
  d_stop :: "js_error option"
  d_remove :: "js_error option"

record outcomes =
  o_ping :: "js_error option"
  o_pull :: "js_error option"
  o_create :: "js_error + handle"
  o_start :: "js_error option"
  o_attach :: "js_error + handle"
  o_cleanup :: denv

definition answer :: "js_error option \<Rightarrow> reply" where
  "answer x = (case x of None \<Rightarrow> Resolved | Some e \<Rightarrow> Rejected e)"

definition answerWith :: "js_error + handle \<Rightarrow> reply" where
  "answerWith x = (case x of Inl e \<Rightarrow> Rejected e | Inr h \<Rightarrow> ResolvedWith h)"

text \<open>
  A stop that is rejected ends the attempt, unless the runtime answers 304 (already stopped).
\<close>

definition stopPasses :: "denv \<Rightarrow> bool" where
  "stopPasses env = (case d_stop env of None \<Rightarrow> True | Some e \<Rightarrow> statusCode e = Some 304)"

text \<open>
  What the promises awaited by a \<open>destroyContainer\<close> that holds the container settle with,
  up to its last delay, with the outcomes \<open>env\<close>: the answer to the ping; when the runtime is
  there, the answer to the stop and, when the stop passes, the answer to the remove.
  \<open>destroyScript k env\<close> are the events that carry the pending entry \<open>k\<close>, such a call at its
  ping, to its return, with nothing else in between: these answers, and the end of the delay.
\<close>

definition destroyReplies :: "denv \<Rightarrow> reply list" where
  "destroyReplies env =
     answer (d_ping env) #
     (if d_ping env \<noteq> None then []
      else answer (d_stop env) # (if stopPasses env then [answer (d_remove env)] else []))"

definition destroyScript :: "nat \<Rightarrow> denv \<Rightarrow> event list" where
  "destroyScript k env = map (Settle k) (destroyReplies env @ [Resolved])"

text \<open>
  A run of \<open>runContainer\<close> fails when one of its runtime calls does; the container handle
  exists at that moment when the failing call comes after the creation.
\<close>

definition spawnFails :: "outcomes \<Rightarrow> bool" where
  "spawnFails oc =
     (o_ping oc \<noteq> None \<or> o_pull oc \<noteq> None \<or> isl (o_create oc) \<or> o_start oc \<noteq> None \<or> isl (o_attach oc))"

definition containerCreated :: "outcomes \<Rightarrow> bool" where
  "containerCreated oc = (o_ping oc = None \<and> o_pull oc = None \<and> \<not> isl (o_create oc))"

text \<open>
  What the promises awaited in the \<open>try\<close> block of a \<open>runContainer\<close> settle with, with the
  outcomes \<open>oc\<close>: the answers to its runtime calls up to the first that fails.
  \<open>spawnScript k oc\<close> are the events that carry the pending entry \<open>k\<close>, a \<open>runContainer\<close> at
  its first ping, to its return, with nothing else in between: these answers, and then the
  cleanup when the spawn fails with the container created.
\<close>

definition tryReplies :: "outcomes \<Rightarrow> reply list" where
  "tryReplies oc =
     answer (o_ping oc) #
     (if o_ping oc \<noteq> None then []
      else
        answer (o_pull oc) #
        (if o_pull oc \<noteq> None then []
         else
           answerWith (o_create oc) #
           (if isl (o_create oc) then []
            else
              answer (o_start oc) #
              (if o_start oc \<noteq> None then [] else [answerWith (o_attach oc)]))))"

definition tryScript :: "nat \<Rightarrow> outcomes \<Rightarrow> event list" where
  "tryScript k oc = map (Settle k) (tryReplies oc)"

definition spawnScript :: "nat \<Rightarrow> outcomes \<Rightarrow> event list" where
  "spawnScript k oc =
     tryScript k oc @
     (if spawnFails oc \<and> containerCreated oc then destroyScript k (o_cleanup oc) else [])"

text \<open>
  The runtime calls that such a spawn makes in its \<open>try\<close> block for the image \<open>img\<close>, and
  those of a \<open>destroyContainer\<close> that holds the container \<open>c\<close>.
\<close>

definition tryCalls :: "outcomes \<Rightarrow> string \<Rightarrow> docker_call list" where
  "tryCalls oc img =
     Ping #
     (if o_ping oc \<noteq> None then []
      else
        Pull img #
        (if o_pull oc \<noteq> None then []
         else
           Create img #
           (case o_create oc of
              Inl e \<Rightarrow> []
            | Inr c \<Rightarrow> Start c # (if o_start oc \<noteq> None then [] else [Attach c]))))"

definition cleanupCalls :: "denv \<Rightarrow> handle \<Rightarrow> docker_call list" where
  "cleanupCalls env c =
     Ping #
     (if d_ping env \<noteq> None then []
      else StopContainer c # (if stopPasses env then [Remove c] else []))"

text \<open>
  The image that \<open>runNewContainer\<close> runs, and all the runtime calls of a spawn that fails:
  those of its \<open>try\<close> block and, when the container was created, those of the cleanup.
\<close>

definition spawnImage :: "string option \<Rightarrow> world \<Rightarrow> string" where
  "spawnImage img w = (case img of None \<Rightarrow> imageName w | Some i \<Rightarrow> if i = [] then imageName w else i)"

definition failedCalls :: "outcomes \<Rightarrow> string \<Rightarrow> docker_call list" where
  "failedCalls oc img =
     tryCalls oc img @
     (case o_create oc of
        Inl e \<Rightarrow> []
      | Inr c \<Rightarrow> if containerCreated oc then cleanupCalls (o_cleanup oc) c else [])"

text \<open>The last \<open>n\<close> entries of what was written to the host terminal.\<close>

definition lastWrites :: "nat \<Rightarrow> world \<Rightarrow> term_out list" where
  "lastWrites n w = drop (length (terminal w) - n) (terminal w)"

text \<open>The invariant of the specification on the two handles: both null or both non-null.\<close>

definition paired :: "world \<Rightarrow> bool" where
  "paired w = ((container w = None) = (ttyStream w = None))"

text \<open>
  The two steps of a spawn that assign a handle: the return of the create and the return of
  the attach.
\<close>

fun assignsHandle :: "pending \<Rightarrow> reply \<Rightarrow> bool" where
  "assignsHandle (SpawnCreate img) (ResolvedWith c) = True"
| "assignsHandle SpawnAttach (ResolvedWith s) = True"
| "assignsHandle p r = False"

fun spawnStep :: "world \<Rightarrow> event \<Rightarrow> bool" where
  "spawnStep w (Settle k r) = (k < length (pending w) \<and> assignsHandle (pending w ! k) r)"
| "spawnStep w e = False"

definition handles :: "world \<Rightarrow> handle option \<times> handle option" where
  "handles w = (container w, ttyStream w)"

text \<open>The states that a list of events goes through, the first one included.\<close>

fun states :: "event list \<Rightarrow> world \<Rightarrow> world list" where
  "states [] w = [w]"
| "states (e # es) w = w # states es (step e w)"

section \<open>Example sessions\<close>

text \<open>
  A fresh executor on a terminal of 24 rows and 80 columns, a runtime in which every call
  succeeds, and the session that \<open>runNewContainer\<close> leaves attached in that runtime when
  nothing else happens during the spawn.
\<close>

abbreviation w0 :: world where
  "w0 \<equiv> newExecutor ''ubuntu:latest'' (Some 24) (Some 80)"

abbreviation cleanupOk :: denv where
  "cleanupOk \<equiv> \<lparr>d_ping = None, d_stop = None, d_remove = None\<rparr>"

abbreviation allOk :: outcomes where
  "allOk \<equiv> \<lparr>o_ping = None, o_pull = None, o_create = Inr 1, o_start = None, o_attach = Inr 2,
             o_cleanup = cleanupOk\<rparr>"

definition attached :: world where
  "attached = run (CallRunNewContainer None # spawnScript 0 allOk) w0"

abbreviation noRuntime :: js_error where
  "noRuntime \<equiv> \<lparr>message = ''connect ENOENT /var/run/docker.sock'', statusCode = None\<rparr>"

abbreviation noSuchContainer :: js_error where
  "noSuchContainer \<equiv> \<lparr>message = ''no such container'', statusCode = Some 404\<rparr>"

definition startFails :: outcomes where
  "startFails = allOk\<lparr>o_start := Some \<lparr>message = ''OCI runtime create failed'', statusCode = Some 500\<rparr>\<rparr>"

definition pingFails :: outcomes where
  "pingFails = allOk\<lparr>o_ping := Some noRuntime\<rparr>"

abbreviation writeAfterEnd :: js_error where
  "writeAfterEnd \<equiv> \<lparr>message = ''write after end'', statusCode = None\<rparr>"

text \<open>
  A session that is stopped while the next one is started. \<open>stop\<close> ends the stream; the end
  handler stops and removes the container and is in the last delay of \<open>destroyContainer\<close>
  when the stream reports an error; the error handler calls \<open>destroyContainer\<close> again, whose
  stop fails on the removed container and which enters its last delay. The first call
  returns and its handler resets the state. \<open>runNewContainer\<close> is called and accepted; its
  ping, pull, create and start resolve. The second call of \<open>destroyContainer\<close> returns and
  the error handler resets the state. Then the attach of the spawn resolves.
\<close>

definition overlapped :: "event list" where
  "overlapped =
     [CallStop, StreamEnd, Settle 0 Resolved, Settle 0 Resolved, Settle 0 Resolved,
      StreamError writeAfterEnd, Settle 1 Resolved, Settle 1 (Rejected noSuchContainer),
      Settle 0 Resolved,
      CallRunNewContainer (Some ''debian:stable''), Settle 1 Resolved, Settle 1 Resolved,
      Settle 1 (ResolvedWith 3),
      Settle 1 Resolved,
      Settle 0 Resolved,
      Settle 0 (ResolvedWith 4)]"

text \<open>
  Three chunks: a shell prompt; a runtime framing artifact that also contains prompt
  fragments; and a line of two letters separated by nine blanks.
\<close>

definition prompt :: string where
  "prompt = ''root@box:/# ''"

definition framed :: string where
  "framed = CHR ''{'' # dq # ''stream'' @ dq # '':true} root@box:/# $ ''"

definition sparse :: string where
  "sparse = ''a         b'' @ [LF]"

text \<open>Keys: F12 arrives as an escape sequence, the backspace key as BS or DEL.\<close>

abbreviation F12 :: string where
  "F12 \<equiv> ESC # ''[24~''"

abbreviation DEL :: char where
  "DEL \<equiv> CHR 0x7F"

definition commandOn :: "string \<Rightarrow> cmd_state" where
  "commandOn acc = \<lparr>isInCommandMode = True, commandBuffer = acc\<rparr>"

text \<open>The text that the STATUS command displays.\<close>

definition statusReport :: "world \<Rightarrow> string" where
  "statusReport w =
     ''Container running. Buffer size: '' @ show_nat (length (buffer w)) @ '' chars. TTY active.''"

section \<open>Notions used in the proofs\<close>

text \<open>
  \<open>latchStep w w'\<close>: between \<open>w\<close> and \<open>w'\<close> the resolver was left alone, or it was called
  once and set to null. \<open>view\<close> is the part of a session that the detached task reads and
  writes. \<open>held\<close> is the part that the spawns and the teardowns read and write: the two
  handles and the pending calls, with the counts of the calls of \<open>destroyContainer\<close> and of
  \<open>resetState\<close> and the calls made to the runtime. \<open>keepsOrResets w w'\<close>: in \<open>w'\<close> the two handles are as in
  \<open>w\<close>, or they are both null. \<open>stage M w k p cs c\<close>: since \<open>M\<close>, the pending call
  number \<open>k\<close> has gone on to \<open>p\<close> and made the runtime calls \<open>cs\<close>, the container handle is
  \<open>c\<close>, and no other call has run.
\<close>

definition latchStep :: "world \<Rightarrow> world \<Rightarrow> bool" where
  "latchStep w w' =
     ((resolved w' = resolved w \<and> readyResolve w' = readyResolve w) \<or>
      (\<exists>p. readyResolve w = Some p \<and> resolved w' = resolved w @ [p] \<and> readyResolve w' = None))"

definition view :: "world \<Rightarrow> task list \<Rightarrow> promise list \<Rightarrow> promise option \<Rightarrow> bool" where
  "view w ts rs rr =
     (tasks w = ts \<and> resolved w = rs \<and> readyResolve w = rr \<and> readyPromise w = 0 \<and>
      ttyStream w = Some 2 \<and> rows w = Some 24 \<and> columns w = Some 80)"

definition held ::
  "world \<Rightarrow> handle option \<Rightarrow> handle option \<Rightarrow> pending list \<Rightarrow> nat \<Rightarrow> nat \<Rightarrow> docker_call list \<Rightarrow> bool" where
  "held w c s ps d r cs =
     (container w = c \<and> ttyStream w = s \<and> pending w = ps \<and> destroyCalls w = d \<and>
      resetCalls w = r \<and> runtime w = cs)"

definition keepsOrResets :: "world \<Rightarrow> world \<Rightarrow> bool" where
  "keepsOrResets w w' = ((container w' = container w \<and> ttyStream w' = ttyStream w) \<or> isReady w')"

definition stage :: "world \<Rightarrow> world \<Rightarrow> nat \<Rightarrow> pending \<Rightarrow> docker_call list \<Rightarrow> handle option \<Rightarrow> bool" where
  "stage M w k p cs c =
     (pending w = (pending M)[k := p] \<and> runtime w = runtime M @ cs \<and> container w = c \<and>
      ttyStream w = ttyStream M \<and> rows w = rows M \<and> columns w = columns M \<and>
      tasks w = tasks M \<and> listeners w = listeners M \<and> imageName w = imageName M \<and>
      destroyCalls w = destroyCalls M \<and> resetCalls w = resetCalls M \<and>
      spawnSettled w = spawnSettled M)"

text \<open>What the caller of a \<open>destroyContainer\<close> logs after its reset.\<close>

definition doneLog :: "caller \<Rightarrow> log_line" where
  "doneLog who =
     (case who of
        EndHandler \<Rightarrow> LogSessionEnded
      | ErrorHandler \<Rightarrow> LogSessionEndedError
      | InterruptHandler \<Rightarrow> LogSessionEnded
      | SpawnCatch \<Rightarrow> LogOperationFailed)"

text \<open>
  The three delays of \<open>destroyContainer\<close>, after each of which it returns; and the \<open>await\<close>s
  of \<open>runContainer\<close> in its \<open>try\<close> block.
\<close>

definition lastDelay :: "pending \<Rightarrow> caller \<Rightarrow> bool" where
  "lastDelay p who = (p = DestroyFinal who \<or> p = DestroyLost who \<or> p = DestroyUnavailable who)"

definition inSpawn :: "pending \<Rightarrow> bool" where
  "inSpawn p =
     (case p of
        SpawnPing img \<Rightarrow> True
      | SpawnPull img \<Rightarrow> True
      | SpawnCreate img \<Rightarrow> True
      | SpawnStart \<Rightarrow> True
      | SpawnAttach \<Rightarrow> True
      | _ \<Rightarrow> False)"

section \<open>Properties of the output buffer\<close>

lemma startsWith_set: "startsWith s pat \<Longrightarrow> set pat \<subseteq> set s"
  by (induction s pat rule: startsWith.induct) auto

lemma includes_str_set: "includes_str s pat \<Longrightarrow> set pat \<subseteq> set s"
proof (induction s)
  case Nil
  then show ?case by (cases pat) simp_all
next
  case (Cons c cs)
  from Cons.prems have "startsWith (c # cs) pat \<or> includes_str cs pat" by simp
  then show ?case
  proof
    assume "startsWith (c # cs) pat"
    then show ?thesis by (rule startsWith_set)
  next
    assume "includes_str cs pat"
    then have "set pat \<subseteq> set cs" by (rule Cons.IH)
    then show ?thesis by auto
  qed
qed

lemma set_trim: "set (trim s) \<subseteq> set s"
  unfolding trim_def
  by (metis set_dropWhileD set_rev subsetI)

lemma matchesStreamTrue_first: "matchesStreamTrue t \<Longrightarrow> CHR ''{'' \<in> set t \<or> dq \<in> set t"
  by (auto simp: matchesStreamTrue_def split: list.splits)

text \<open>Every structural marker contains a double quote, a colon or an opening brace.\<close>

lemma metadata_needs_marker_char:
  "isDockerMetadata data \<Longrightarrow> dq \<in> set data \<or> CHR '':'' \<in> set data \<or> CHR ''{'' \<in> set data"
  unfolding isDockerMetadata_def
  using set_trim[of data]
  by (auto dest!: includes_str_set startsWith_set matchesStreamTrue_first)

lemma replicate_a_not_metadata: "\<not> isDockerMetadata (replicate n (CHR ''a''))"
  using metadata_needs_marker_char[of "replicate n (CHR ''a'')"] by auto

lemma length_slice_last: "length (slice_last n s) = min n (length s)"
  unfolding slice_last_def by (simp add: min_def)

lemma onData_buffer:
  "\<not> isDockerMetadata data \<Longrightarrow>
   buffer (onData data w) =
     (if length (buffer w @ data) > 10000 then slice_last 5000 (buffer w @ data) else buffer w @ data)"
  by (simp add: onData_def Let_def split: option.splits)

lemma wake_buffer: "buffer (wake w) = buffer w"
  by (simp add: wake_def)

lemma onData_buffer_le:
  assumes "length (buffer w) \<le> 10000"
  shows "length (buffer (onData data w)) \<le> 10000"
proof (cases "isDockerMetadata data")
  case True
  with assms show ?thesis by (simp add: onData_def)
next
  case False
  then show ?thesis by (simp add: onData_buffer length_slice_last)
qed

lemma onData_real_le:
  "\<not> isDockerMetadata data \<Longrightarrow> length (buffer (onData data w)) \<le> 10000"
  by (simp add: onData_buffer length_slice_last)

lemma run_chunks_buffer_le:
  "length (buffer w) \<le> 10000 \<Longrightarrow> length (buffer (run (map StreamData chunks) w)) \<le> 10000"
  unfolding run_def
  by (induction chunks arbitrary: w) (simp_all add: wake_buffer onData_buffer_le)

lemma bc_not_metadata: "\<not> isDockerMetadata ''bc''"
  by (simp add: isDockerMetadata_def matchesStreamTrue_def trim_def isWhiteSpace_def)

text \<open>
  C1, as the code has it. The buffer never exceeds 10,000 characters: a sequence of chunks
  keeps a buffer within the ceiling, and one real-output chunk brings any buffer within it.
  When the buffer with the chunk appended would exceed 10,000 characters, the chunk is
  appended first and the result is cut to its last 5,000 characters, so the buffer is then
  exactly the last 5,000 characters of the old buffer followed by the chunk, 5,000 characters
  long. Otherwise the chunk is appended and nothing is dropped.
\<close>

theorem output_buffer_bound_and_truncation:
  "(length (buffer w) \<le> 10000 \<longrightarrow> length (buffer (run (map StreamData chunks) w)) \<le> 10000) \<and>
   (\<not> isDockerMetadata data \<longrightarrow> length (buffer (step (StreamData data) w)) \<le> 10000) \<and>
   (\<not> isDockerMetadata data \<and> 10000 < length (buffer w) + length data \<longrightarrow>
      buffer (step (StreamData data) w) = drop (length (buffer w @ data) - 5000) (buffer w @ data) \<and>
      length (buffer (step (StreamData data) w)) = 5000) \<and>
   (\<not> isDockerMetadata data \<and> length (buffer w) + length data \<le> 10000 \<longrightarrow>
      buffer (step (StreamData data) w) = buffer w @ data)"
proof (intro conjI impI)
  assume "length (buffer w) \<le> 10000"
  then show "length (buffer (run (map StreamData chunks) w)) \<le> 10000"
    by (rule run_chunks_buffer_le)
next
  assume "\<not> isDockerMetadata data"
  then show "length (buffer (step (StreamData data) w)) \<le> 10000"
    by (simp add: wake_buffer onData_real_le)
next
  assume a: "\<not> isDockerMetadata data \<and> 10000 < length (buffer w) + length data"
  then show "buffer (step (StreamData data) w) = drop (length (buffer w @ data) - 5000) (buffer w @ data)"
    by (simp add: wake_buffer onData_buffer slice_last_def)
  from a show "length (buffer (step (StreamData data) w)) = 5000"
    by (simp add: wake_buffer onData_buffer length_slice_last)
next
  assume "\<not> isDockerMetadata data \<and> length (buffer w) + length data \<le> 10000"
  then show "buffer (step (StreamData data) w) = buffer w @ data"
    by (simp add: wake_buffer onData_buffer)
qed

text \<open>
  The theorem at work: two chunks on a fresh executor; a buffer of 9,999 characters that
  receives two more and is cut to 4,998 old characters and the chunk; a buffer of 9,998
  characters that receives the same chunk and keeps everything.
\<close>

theorem output_buffer_bound_and_truncation_witness:
  "length (buffer (run (map StreamData [replicate 9999 (CHR ''a''), ''bc'']) w0)) \<le> 10000 \<and>
   buffer (step (StreamData ''bc'') (w0\<lparr>buffer := replicate 9999 (CHR ''a'')\<rparr>))
     = replicate 4998 (CHR ''a'') @ ''bc'' \<and>
   buffer (step (StreamData ''bc'') (w0\<lparr>buffer := replicate 9998 (CHR ''a'')\<rparr>))
     = replicate 9998 (CHR ''a'') @ ''bc''"
proof -
  have e: "length (buffer w0) \<le> 10000" by (simp add: newExecutor_def)
  have 1: "length (buffer (run (map StreamData [replicate 9999 (CHR ''a''), ''bc'']) w0)) \<le> 10000"
    using output_buffer_bound_and_truncation[of w0 "[replicate 9999 (CHR ''a''), ''bc'']" "''bc''"] e
    by blast
  have 2: "buffer (step (StreamData ''bc'') (w0\<lparr>buffer := replicate 9999 (CHR ''a'')\<rparr>))
      = replicate 4998 (CHR ''a'') @ ''bc''"
    using output_buffer_bound_and_truncation[of "w0\<lparr>buffer := replicate 9999 (CHR ''a'')\<rparr>" "[]" "''bc''"]
      bc_not_metadata
    by simp
  have 3: "buffer (step (StreamData ''bc'') (w0\<lparr>buffer := replicate 9998 (CHR ''a'')\<rparr>))
      = replicate 9998 (CHR ''a'') @ ''bc''"
    using output_buffer_bound_and_truncation[of "w0\<lparr>buffer := replicate 9998 (CHR ''a'')\<rparr>" "[]" "''bc''"]
      bc_not_metadata
    by simp
  from 1 2 3 show ?thesis by blast
qed

text \<open>
  C1 as stated fails. A fresh executor receives 10,000 characters and then one more. The
  claim puts the last 5,000 characters of the buffer before the append in front of the chunk,
  5,001 characters in all; the code appends and then keeps the last 5,000 of the result.
\<close>

theorem truncation_before_append_counterexample:
  "buffer (run [StreamData (replicate 10000 (CHR ''a'')), StreamData ''b''] w0)
     \<noteq> slice_last 5000 (replicate 10000 (CHR ''a'')) @ ''b''"
proof -
  have nb: "\<not> isDockerMetadata ''b''"
    by (simp add: isDockerMetadata_def matchesStreamTrue_def trim_def isWhiteSpace_def)
  have b1: "buffer (step (StreamData (replicate 10000 (CHR ''a''))) w0) = replicate 10000 (CHR ''a'')"
    by (simp add: wake_buffer onData_buffer replicate_a_not_metadata newExecutor_def)
  have "length (buffer (run [StreamData (replicate 10000 (CHR ''a'')), StreamData ''b''] w0)) = 5000"
    using b1 nb by (simp add: run_def wake_buffer onData_buffer length_slice_last)
  moreover have "length (slice_last 5000 (replicate 10000 (CHR ''a'')) @ ''b'') = 5001"
    by (simp add: length_slice_last)
  ultimately show ?thesis by auto
qed

section \<open>Properties of the classification\<close>

lemma framed_metadata: "isDockerMetadata framed"
  by (simp add: framed_def isDockerMetadata_def)

lemma framed_prompt: "hasPrompt framed"
  by (simp add: framed_def hasPrompt_def)

text \<open>
  C4. A chunk that the classifier takes for runtime metadata is dropped: the handler returns
  the executor and its environment exactly as they were, so the buffer, the host terminal and
  the ready promise are untouched, whatever else the chunk contains.
\<close>

theorem metadata_chunk_is_dropped:
  "isDockerMetadata data \<Longrightarrow>
     onData data w = w \<and>
     buffer (step (StreamData data) w) = buffer w \<and>
     terminal (step (StreamData data) w) = terminal w \<and>
     resolved (step (StreamData data) w) = resolved w \<and>
     readyResolve (step (StreamData data) w) = readyResolve w"
  by (simp add: onData_def wake_def)

text \<open>A framing artifact with \<open>root@\<close>, \<open># \<close> and \<open>$ \<close> in it, on the attached session.\<close>

theorem metadata_chunk_is_dropped_witness:
  "isDockerMetadata framed \<and> hasPrompt framed \<and>
   onData framed attached = attached \<and>
   buffer (step (StreamData framed) attached) = buffer attached \<and>
   terminal (step (StreamData framed) attached) = terminal attached \<and>
   resolved (step (StreamData framed) attached) = resolved attached \<and>
   readyResolve (step (StreamData framed) attached) = readyResolve attached"
  using metadata_chunk_is_dropped[of framed attached] framed_metadata framed_prompt by blast

lemma sparse_not_metadata: "\<not> isDockerMetadata sparse"
  by (simp add: sparse_def isDockerMetadata_def matchesStreamTrue_def trim_def isWhiteSpace_def)

lemma sparse_trim: "trim sparse = ''a         b''"
  by (simp add: sparse_def trim_def isWhiteSpace_def)

lemma sparse_newline: "includes_str sparse [LF]"
  by (simp add: sparse_def)

lemma sparse_no_prompt: "\<not> hasPrompt sparse"
  by (simp add: sparse_def hasPrompt_def)

lemma sparse_few: "length (filter (\<lambda>c. \<not> isWhiteSpace c) sparse) = 2"
  by (simp add: sparse_def isWhiteSpace_def)

text \<open>
  C9 as stated fails. The chunk \<open>sparse\<close> is not metadata, has no prompt fragment and only two
  non-whitespace characters, so the claim says it does not signal readiness; but it is eleven
  characters long once trimmed and ends in a line feed, and the handler resolves the ready
  promise of a fresh executor on it.
\<close>

theorem nonwhitespace_count_counterexample:
  "\<not> isDockerMetadata sparse \<and> signalsReady sparse \<and> \<not> spec_signalsReady sparse \<and>
   resolved (step (StreamData sparse) w0) = [0]"
proof -
  have 1: "signalsReady sparse"
    by (simp add: signalsReady_def hasOutput_def hasNewline_def sparse_not_metadata sparse_trim
          sparse_newline)
  have 2: "\<not> spec_signalsReady sparse"
    by (simp add: spec_signalsReady_def sparse_no_prompt sparse_few)
  have 3: "resolved (step (StreamData sparse) w0) = [0]"
    using 1 sparse_not_metadata by (simp add: onData_def wake_def newExecutor_def Let_def)
  from 1 2 3 sparse_not_metadata show ?thesis by blast
qed

text \<open>
  C9, as the code has it. For a chunk that is not metadata, arriving while the resolver is
  still there, the handler resolves the ready promise if and only if the chunk contains
  \<open>root@\<close>, \<open># \<close> or \<open>$ \<close>, or it is more than ten characters long after trimming and contains
  a line feed.
\<close>

theorem readiness_heuristic:
  "\<not> isDockerMetadata data \<Longrightarrow> readyResolve w = Some p \<Longrightarrow>
     (if includes_str data ''root@'' \<or> includes_str data ''# '' \<or> includes_str data ''$ '' \<or>
         (10 < length (trim data) \<and> includes_str data [LF])
      then resolved (step (StreamData data) w) = resolved w @ [p] \<and>
           readyResolve (step (StreamData data) w) = None
      else resolved (step (StreamData data) w) = resolved w \<and>
           readyResolve (step (StreamData data) w) = Some p)"
  by (simp add: onData_def wake_def Let_def signalsReady_def hasPrompt_def hasOutput_def hasNewline_def)

text \<open>One chunk that signals readiness and one that does not, on a fresh executor.\<close>

theorem readiness_heuristic_witness:
  "\<not> isDockerMetadata sparse \<and> readyResolve w0 = Some 0 \<and>
   resolved (step (StreamData sparse) w0) = resolved w0 @ [0] \<and>
   readyResolve (step (StreamData sparse) w0) = None \<and>
   \<not> isDockerMetadata ''bc'' \<and>
   resolved (step (StreamData ''bc'') w0) = resolved w0 \<and>
   readyResolve (step (StreamData ''bc'') w0) = Some 0"
proof -
  have r: "readyResolve w0 = Some 0" by (simp add: newExecutor_def)
  have c1: "10 < length (trim sparse) \<and> includes_str sparse [LF]"
    by (simp add: sparse_trim sparse_newline)
  have a: "resolved (step (StreamData sparse) w0) = resolved w0 @ [0] \<and>
           readyResolve (step (StreamData sparse) w0) = None"
    using readiness_heuristic[OF sparse_not_metadata r] c1 by presburger
  have c2: "\<not> (includes_str ''bc'' ''root@'' \<or> includes_str ''bc'' ''# '' \<or> includes_str ''bc'' ''$ '' \<or>
         (10 < length (trim ''bc'') \<and> includes_str ''bc'' [LF]))"
    by simp
  have b: "resolved (step (StreamData ''bc'') w0) = resolved w0 \<and>
           readyResolve (step (StreamData ''bc'') w0) = Some 0"
    using readiness_heuristic[OF bc_not_metadata r] c2 by presburger
  from r a b sparse_not_metadata bc_not_metadata show ?thesis by blast
qed

section \<open>The attached session\<close>

lemmas prim_defs =
  console_def updateStatus_def clearStatus_def restoreTerminal_def resetState_def call_def
  addPending_def spawnReturn_def addTask_def destroyStart_def setupTTYSTDIN_def sessionStarted_def

lemmas spawn_defs =
  runNewContainer_def runContainer_def startContainer_def afterStart_def setupTTYStream_def
  settle_def isReady_def Let_def

lemmas script_defs = spawnScript_def tryScript_def tryReplies_def destroyScript_def destroyReplies_def
  answer_def answerWith_def spawnFails_def containerCreated_def stopPasses_def

lemma run_Nil: "run [] w = w"
  by (simp add: run_def)

lemma run_Cons: "run (e # es) w = run es (step e w)"
  by (simp add: run_def)

lemma run_append: "run (es @ es') w = run es' (run es w)"
  by (simp add: run_def)

lemma attached_run:
  "attached = run [CallRunNewContainer None, Settle 0 Resolved, Settle 0 Resolved, Settle 0 (ResolvedWith 1),
       Settle 0 Resolved, Settle 0 (ResolvedWith 2)] w0"
  by (simp add: attached_def script_defs)

lemma attached_handles: "container attached = Some 1" "ttyStream attached = Some 2"
  by (simp_all add: attached_run run_def newExecutor_def spawn_defs prim_defs)

lemma attached_latch: "readyPromise attached = 0" "readyResolve attached = Some 0" "resolved attached = []"
  by (simp_all add: attached_run run_def newExecutor_def spawn_defs prim_defs)

lemma attached_tasks: "tasks attached = [Bg (BgNudge 1000)]" "pending attached = []"
  by (simp_all add: attached_run run_def newExecutor_def spawn_defs prim_defs)

lemma attached_counts: "destroyCalls attached = 0" "resetCalls attached = 0" "buffer attached = []"
  "rows attached = Some 24" "columns attached = Some 80"
  by (simp_all add: attached_run run_def newExecutor_def spawn_defs prim_defs)

lemma attached_status: "statusLine attached = Some ''Container started - TTY session active''"
  by (simp add: attached_run run_def newExecutor_def spawn_defs prim_defs)

lemma attached_more: "stdinPaused attached = False" "listeners attached = [commandOff]"
  "runtime attached = [Ping, Pull ''ubuntu:latest'', Create ''ubuntu:latest'', Start 1, Attach 1]"
  "spawnSettled attached = [None]" "imageName attached = ''ubuntu:latest''"
  by (simp_all add: attached_run run_def newExecutor_def spawn_defs prim_defs commandOff_def)

lemmas attached_simps = attached_handles attached_latch attached_tasks attached_counts

section \<open>Properties of the ready promise\<close>

lemma latchStep_refl: "latchStep w w"
  by (simp add: latchStep_def)

lemma latchStep_trans: "latchStep w w' \<Longrightarrow> latchStep w' w'' \<Longrightarrow> latchStep w w''"
  by (auto simp: latchStep_def)

lemma latchStep_onData: "latchStep w (onData data w)"
  by (auto simp: latchStep_def onData_def Let_def split: option.splits)

lemma latchStep_wake: "latchStep w (wake w)"
  by (simp add: latchStep_def wake_def)

lemma latchStep_expire: "latchStep w (expire t w)"
  by (induction t w rule: expire.induct)
     (auto simp: latchStep_def Let_def addTask_def sendInput_def updateStatus_def clearStatus_def
        setupTerminalReservation_def split: option.splits)

lemma latchStep_fold_expire: "latchStep w (fold expire ts w)"
proof (induction ts arbitrary: w)
  case Nil
  show ?case by (simp add: latchStep_refl)
next
  case (Cons t ts)
  have "latchStep w (expire t w)" by (rule latchStep_expire)
  moreover have "latchStep (expire t w) (fold expire ts (expire t w))" by (rule Cons.IH)
  ultimately show ?case by (simp add: latchStep_trans)
qed

lemma latchStep_elapse: "latchStep w (elapse n w)"
proof -
  let ?ts = "map (advance (fold min (List.map_filter remaining (tasks w)) n)) (tasks w)"
  let ?w1 = "w\<lparr>tasks := filter (\<lambda>t. \<not> due t) ?ts\<rparr>"
  have "latchStep w ?w1" by (simp add: latchStep_def)
  moreover have "latchStep ?w1 (fold expire (filter due ?ts) ?w1)" by (rule latchStep_fold_expire)
  moreover have "latchStep (fold expire (filter due ?ts) ?w1) (wake (fold expire (filter due ?ts) ?w1))"
    by (rule latchStep_wake)
  ultimately show ?thesis
    unfolding elapse_def Let_def by (blast intro: latchStep_trans)
qed

lemma latchStep_step: "streamOrTimer e \<Longrightarrow> latchStep w (step e w)"
  by (cases e) (auto intro: latchStep_trans latchStep_onData latchStep_wake latchStep_elapse)

lemma latchStep_run: "list_all streamOrTimer es \<Longrightarrow> latchStep w (run es w)"
  unfolding run_def
proof (induction es arbitrary: w)
  case Nil
  show ?case by (simp add: latchStep_refl)
next
  case (Cons e es)
  then have "latchStep w (step e w)" by (simp add: latchStep_step)
  moreover from Cons have "latchStep (step e w) (fold step es (step e w))" by simp
  ultimately show ?case by (simp add: latchStep_trans)
qed

text \<open>
  C3. Between a spawn and the next reset the only events that can resolve the ready promise
  are chunks of the stream and timers. Over any sequence of them, from any state, the resolver
  is either never called, or called exactly once, on the promise it belonged to, and null
  afterwards; and once it is null no chunk and no timer calls it again.
\<close>

theorem latch_fires_at_most_once:
  "list_all streamOrTimer es \<Longrightarrow>
     ((resolved (run es w) = resolved w \<and> readyResolve (run es w) = readyResolve w) \<or>
      (\<exists>p. readyResolve w = Some p \<and> resolved (run es w) = resolved w @ [p] \<and>
           readyResolve (run es w) = None)) \<and>
     (readyResolve w = None \<longrightarrow>
        resolved (run es w) = resolved w \<and> readyResolve (run es w) = None)"
proof -
  assume "list_all streamOrTimer es"
  then have "latchStep w (run es w)" by (rule latchStep_run)
  then show ?thesis unfolding latchStep_def by auto
qed

lemma prompt_not_metadata: "\<not> isDockerMetadata prompt"
  by (simp add: prompt_def isDockerMetadata_def matchesStreamTrue_def trim_def isWhiteSpace_def)

lemma prompt_ready: "signalsReady prompt"
  by (simp add: prompt_def signalsReady_def hasPrompt_def)

lemmas timer_defs =
  elapse_def due_def wake_def addTask_def sendInput_def updateStatus_def clearStatus_def
  setupTerminalReservation_def List.map_filter_def Let_def actualRows_def actualCols_def

lemma view_attached: "view attached [Bg (BgNudge 1000)] [] (Some 0)"
  by (simp add: view_def attached_simps)

lemma view_nudge_wait:
  "view w [Bg (BgNudge k)] [] (Some 0) \<Longrightarrow> n < k \<Longrightarrow>
   view (step (Elapse n) w) [Bg (BgNudge (k - n))] [] (Some 0)"
  by (simp add: view_def timer_defs)

lemma view_nudge:
  "view w [Bg (BgNudge k)] [] (Some 0) \<Longrightarrow> k \<le> n \<Longrightarrow>
   view (step (Elapse n) w) [Bg (BgAwaitReady 0)] [] (Some 0)"
  by (simp add: view_def timer_defs)

lemma view_await:
  "view w [Bg (BgAwaitReady 0)] [] (Some 0) \<Longrightarrow>
   view (step (Elapse n) w) [Bg (BgAwaitReady 0)] [] (Some 0)"
  by (simp add: view_def timer_defs)

lemma view_prompt:
  "view w [Bg (BgAwaitReady 0)] [] (Some 0) \<Longrightarrow>
   view (step (StreamData prompt) w) [Bg (BgSettle 500)] [0] None"
  by (simp add: view_def wake_def onData_def prompt_not_metadata prompt_ready Let_def)

lemma view_settle:
  "view w [Bg (BgSettle 500)] rs rr \<Longrightarrow>
   view (step (Elapse 500) w) [Bg (BgTerm SentLines 200 22 80)] rs rr"
  by (simp add: view_def timer_defs)

lemma view_term:
  "view w [Bg (BgTerm SentLines 200 u c)] rs rr \<Longrightarrow>
   view (step (Elapse 200) w) [Bg (BgTerm SentColumns 200 u c)] rs rr"
  "view w [Bg (BgTerm SentColumns 200 u c)] rs rr \<Longrightarrow>
   view (step (Elapse 200) w) [Bg (BgTerm SentCsr 300 u c)] rs rr"
  "view w [Bg (BgTerm SentCsr 300 u c)] rs rr \<Longrightarrow>
   view (step (Elapse 300) w) [Bg (BgTerm SentClear1 200 u c)] rs rr"
  "view w [Bg (BgTerm SentClear1 200 u c)] rs rr \<Longrightarrow>
   view (step (Elapse 200) w) [Bg (BgTerm SentCup 200 u c)] rs rr"
  "view w [Bg (BgTerm SentCup 200 u c)] rs rr \<Longrightarrow>
   view (step (Elapse 200) w) [Bg (BgTerm SentClear2 200 u c)] rs rr"
  "view w [Bg (BgTerm SentClear2 200 u c)] rs rr \<Longrightarrow>
   view (step (Elapse 200) w) [Bg (BgFallback 5000)] rs rr"
  by (simp_all add: view_def timer_defs)

lemma view_fallback_fired:
  "view w [Bg (BgFallback 5000)] rs None \<Longrightarrow> view (step (Elapse 5000) w) [] rs None"
  by (simp add: view_def timer_defs)

text \<open>
  A session in which the prompt arrives after the nudge: the detached task goes through the
  terminal set-up, waits five seconds and reaches the fallback, which finds the resolver null.
\<close>

lemma ready_then_fallback:
  "view (run [Elapse 1000, StreamData prompt, Elapse 500, Elapse 200, Elapse 200, Elapse 300,
               Elapse 200, Elapse 200, Elapse 200, Elapse 5000] attached) [] [0] None"
proof -
  note v1 = view_nudge[OF view_attached order_refl]
  note v2 = view_prompt[OF v1]
  note v3 = view_settle[OF v2]
  note v4 = view_term(1)[OF v3]
  note v5 = view_term(2)[OF v4]
  note v6 = view_term(3)[OF v5]
  note v7 = view_term(4)[OF v6]
  note v8 = view_term(5)[OF v7]
  note v9 = view_term(6)[OF v8]
  note v10 = view_fallback_fired[OF v9]
  from v10 show ?thesis by (simp add: run_def)
qed

text \<open>
  The session above, followed by another prompt, seven more seconds and a third prompt: the
  ready promise was resolved once, by the first prompt.
\<close>

theorem latch_fires_at_most_once_witness:
  "list_all streamOrTimer [StreamData prompt, Elapse 7000, StreamData prompt] \<and>
   tasks (run [Elapse 1000, StreamData prompt, Elapse 500, Elapse 200, Elapse 200, Elapse 300,
               Elapse 200, Elapse 200, Elapse 200, Elapse 5000] attached) = [] \<and>
   resolved (run ([Elapse 1000, StreamData prompt, Elapse 500, Elapse 200, Elapse 200, Elapse 300,
                   Elapse 200, Elapse 200, Elapse 200, Elapse 5000]
                  @ [StreamData prompt, Elapse 7000, StreamData prompt]) attached) = [0] \<and>
   readyResolve (run ([Elapse 1000, StreamData prompt, Elapse 500, Elapse 200, Elapse 200, Elapse 300,
                       Elapse 200, Elapse 200, Elapse 200, Elapse 5000]
                      @ [StreamData prompt, Elapse 7000, StreamData prompt]) attached) = None"
proof -
  let ?es = "[Elapse 1000, StreamData prompt, Elapse 500, Elapse 200, Elapse 200, Elapse 300,
              Elapse 200, Elapse 200, Elapse 200, Elapse 5000]"
  let ?es' = "[StreamData prompt, Elapse 7000, StreamData prompt]"
  have l: "list_all streamOrTimer ?es'" by simp
  have v: "tasks (run ?es attached) = []" "resolved (run ?es attached) = [0]"
    "readyResolve (run ?es attached) = None"
    using ready_then_fallback by (simp_all add: view_def)
  from latch_fires_at_most_once[OF l, of "run ?es attached"] v
  have "resolved (run ?es' (run ?es attached)) = [0] \<and> readyResolve (run ?es' (run ?es attached)) = None"
    by simp
  with l v show ?thesis by (simp only: run_append)
qed

lemma silent_inv:
  "(\<exists>k. 0 < k \<and> view w [Bg (BgNudge k)] [] (Some 0)) \<or> view w [Bg (BgAwaitReady 0)] [] (Some 0) \<Longrightarrow>
   (\<exists>k. 0 < k \<and> view (step (Elapse n) w) [Bg (BgNudge k)] [] (Some 0)) \<or>
   view (step (Elapse n) w) [Bg (BgAwaitReady 0)] [] (Some 0)"
proof (elim disjE exE conjE)
  fix k
  assume k: "0 < k" and v: "view w [Bg (BgNudge k)] [] (Some 0)"
  show ?thesis
  proof (cases "n < k")
    case True
    with v have "view (step (Elapse n) w) [Bg (BgNudge (k - n))] [] (Some 0)" by (rule view_nudge_wait)
    moreover from True have "0 < k - n" by simp
    ultimately show ?thesis by blast
  next
    case False
    then have "k \<le> n" by simp
    with v have "view (step (Elapse n) w) [Bg (BgAwaitReady 0)] [] (Some 0)" by (rule view_nudge)
    then show ?thesis by blast
  qed
next
  assume "view w [Bg (BgAwaitReady 0)] [] (Some 0)"
  then have "view (step (Elapse n) w) [Bg (BgAwaitReady 0)] [] (Some 0)" by (rule view_await)
  then show ?thesis by blast
qed

lemma silent_inv_run:
  "(\<exists>k. 0 < k \<and> view w [Bg (BgNudge k)] [] (Some 0)) \<or> view w [Bg (BgAwaitReady 0)] [] (Some 0) \<Longrightarrow>
   (\<exists>k. 0 < k \<and> view (run (map Elapse ns) w) [Bg (BgNudge k)] [] (Some 0)) \<or>
   view (run (map Elapse ns) w) [Bg (BgAwaitReady 0)] [] (Some 0)"
  unfolding run_def
proof (induction ns arbitrary: w)
  case Nil
  then show ?case by simp
next
  case (Cons n ns)
  from Cons.prems have "(\<exists>k. 0 < k \<and> view (step (Elapse n) w) [Bg (BgNudge k)] [] (Some 0)) \<or>
   view (step (Elapse n) w) [Bg (BgAwaitReady 0)] [] (Some 0)" by (rule silent_inv)
  then show ?case using Cons.IH by simp
qed

text \<open>
  C2 does not hold of the code. On the attached session, with a shell that sends nothing,
  time may pass in any number of steps of any length: the resolver is never called and the
  ready promise stays pending. The detached task waits for the ready promise before it comes
  to the delay of five seconds and the fallback behind it.
\<close>

theorem silent_shell_latch_never_fires:
  "resolved (run (map Elapse ns) attached) = [] \<and> readyResolve (run (map Elapse ns) attached) = Some 0"
proof -
  have "(\<exists>k. 0 < k \<and> view attached [Bg (BgNudge k)] [] (Some 0)) \<or>
        view attached [Bg (BgAwaitReady 0)] [] (Some 0)"
    using view_attached by (intro disjI1 exI[of _ 1000]) simp
  then have "(\<exists>k. 0 < k \<and> view (run (map Elapse ns) attached) [Bg (BgNudge k)] [] (Some 0)) \<or>
   view (run (map Elapse ns) attached) [Bg (BgAwaitReady 0)] [] (Some 0)" by (rule silent_inv_run)
  then show ?thesis by (auto simp: view_def)
qed

section \<open>One pending call at a time\<close>

lemmas stage_defs = stage_def settle_def prim_defs

lemma stage_start: "k < length (pending M) \<Longrightarrow> pending M ! k = p \<Longrightarrow> stage M M k p [] (container M)"
  by (auto simp: stage_def)

lemma stage_destroy_ping:
  "stage M w k (DestroyPing who) cs (Some c) \<Longrightarrow> k < length (pending M) \<Longrightarrow>
     stage M (settle k Resolved w) k (DestroyStop who) (cs @ [StopContainer c]) (Some c)"
  by (simp add: stage_defs destroyStop_def)

lemma stage_destroy_unavailable:
  "stage M w k (DestroyPing who) cs c \<Longrightarrow> k < length (pending M) \<Longrightarrow>
     stage M (settle k (Rejected e) w) k (DestroyUnavailable who) cs c"
  by (simp add: stage_defs)

lemma stage_destroy_stop:
  "stage M w k (DestroyStop who) cs (Some c) \<Longrightarrow> k < length (pending M) \<Longrightarrow>
     stage M (settle k Resolved w) k (DestroyRemove who) (cs @ [Remove c]) (Some c)"
  by (simp add: stage_defs destroyRemove_def)

lemma stage_destroy_stopped:
  "stage M w k (DestroyStop who) cs (Some c) \<Longrightarrow> k < length (pending M) \<Longrightarrow>
   statusCode e = Some 304 \<Longrightarrow>
     stage M (settle k (Rejected e) w) k (DestroyRemove who) (cs @ [Remove c]) (Some c)"
  by (simp add: stage_defs destroyRemove_def)

lemma stage_destroy_lost:
  "stage M w k (DestroyStop who) cs c \<Longrightarrow> k < length (pending M) \<Longrightarrow>
   statusCode e \<noteq> Some 304 \<Longrightarrow> connectionLost e \<Longrightarrow>
     stage M (settle k (Rejected e) w) k (DestroyLost who) cs c"
  by (simp add: stage_defs)

lemma stage_destroy_thrown:
  "stage M w k (DestroyStop who) cs c \<Longrightarrow> k < length (pending M) \<Longrightarrow>
   statusCode e \<noteq> Some 304 \<Longrightarrow> \<not> connectionLost e \<Longrightarrow>
     stage M (settle k (Rejected e) w) k (DestroyFinal who) cs c"
  by (simp add: stage_defs destroyCaught_def)

lemma stage_destroy_remove:
  "stage M w k (DestroyRemove who) cs c \<Longrightarrow> k < length (pending M) \<Longrightarrow>
     stage M (settle k Resolved w) k (DestroyFinal who) cs c"
  "stage M w k (DestroyRemove who) cs c \<Longrightarrow> k < length (pending M) \<Longrightarrow>
     stage M (settle k (Rejected e) w) k (DestroyFinal who) cs c"
  by (simp_all add: stage_defs destroyCaught_def)

lemma lastWrites_suffix: "terminal w = xs @ ys \<Longrightarrow> length ys = n \<Longrightarrow> lastWrites n w = ys"
  by (simp add: lastWrites_def)

lemma stage_destroy_return:
  assumes "stage M w k p cs c" and "k < length (pending M)" and "lastDelay p who"
  shows "container (settle k Resolved w) = None"
    "ttyStream (settle k Resolved w) = None"
    "buffer (settle k Resolved w) = []"
    "shouldStop (settle k Resolved w) = False"
    "readyResolve (settle k Resolved w) = Some (readyPromise (settle k Resolved w))"
    "statusLine (settle k Resolved w) = None"
    "lastWrites 5 (settle k Resolved w) = clearWrites (rows M) @ [Console (doneLog who)]"
    "runtime (settle k Resolved w) = runtime M @ cs"
    "pending (settle k Resolved w) = take k (pending M) @ drop (Suc k) (pending M)"
    "spawnSettled (settle k Resolved w) = spawnSettled M @ (if who = SpawnCatch then [None] else [])"
    "destroyCalls (settle k Resolved w) = destroyCalls M"
    "resetCalls (settle k Resolved w) = Suc (resetCalls M)"
    "rows (settle k Resolved w) = rows M"
    "tasks (settle k Resolved w) = tasks M"
    "imageName (settle k Resolved w) = imageName M"
  using assms
  by (cases who; auto simp: lastDelay_def stage_defs afterDestroy_def doneLog_def lastWrites_def
        clearWrites_def)+

lemma destroy_reaches_delay:
  assumes s: "stage M w k (DestroyPing who) cs (Some c)" and k: "k < length (pending M)"
  shows "\<exists>p. lastDelay p who \<and>
           stage M (run (map (Settle k) (destroyReplies env)) w) k p (cs @ tl (cleanupCalls env c)) (Some c)"
proof (cases "d_ping env")
  case (Some e)
  with stage_destroy_unavailable[OF s k, of e] show ?thesis
    by (auto simp: destroyReplies_def answer_def run_def cleanupCalls_def lastDelay_def)
next
  case None
  note s1 = stage_destroy_ping[OF s k]
  show ?thesis
  proof (cases "d_stop env")
    case stopOk: None
    note s2 = stage_destroy_stop[OF s1 k]
    from stage_destroy_remove[OF s2 k] None stopOk show ?thesis
      by (cases "d_remove env")
         (auto simp: destroyReplies_def answer_def run_def cleanupCalls_def lastDelay_def stopPasses_def)
  next
    case (Some e)
    show ?thesis
    proof (cases "statusCode e = Some 304")
      case True
      note s2 = stage_destroy_stopped[OF s1 k True]
      from stage_destroy_remove[OF s2 k] None Some True show ?thesis
        by (cases "d_remove env")
           (auto simp: destroyReplies_def answer_def run_def cleanupCalls_def lastDelay_def stopPasses_def)
    next
      case False
      from stage_destroy_lost[OF s1 k False] stage_destroy_thrown[OF s1 k False] None Some False
      show ?thesis
        by (cases "connectionLost e")
           (auto simp: destroyReplies_def answer_def run_def cleanupCalls_def lastDelay_def stopPasses_def)
    qed
  qed
qed

lemma destroy_alone:
  assumes k: "k < length (pending M)" and p: "pending M ! k = DestroyPing who"
    and c: "container M = Some c"
  shows "container (run (destroyScript k env) M) = None"
    "ttyStream (run (destroyScript k env) M) = None"
    "buffer (run (destroyScript k env) M) = []"
    "shouldStop (run (destroyScript k env) M) = False"
    "readyResolve (run (destroyScript k env) M) = Some (readyPromise (run (destroyScript k env) M))"
    "statusLine (run (destroyScript k env) M) = None"
    "lastWrites 5 (run (destroyScript k env) M) = clearWrites (rows M) @ [Console (doneLog who)]"
    "runtime (run (destroyScript k env) M) = runtime M @ tl (cleanupCalls env c)"
    "pending (run (destroyScript k env) M) = take k (pending M) @ drop (Suc k) (pending M)"
    "spawnSettled (run (destroyScript k env) M) = spawnSettled M @ (if who = SpawnCatch then [None] else [])"
    "destroyCalls (run (destroyScript k env) M) = destroyCalls M"
    "resetCalls (run (destroyScript k env) M) = Suc (resetCalls M)"
    "rows (run (destroyScript k env) M) = rows M"
    "tasks (run (destroyScript k env) M) = tasks M"
    "imageName (run (destroyScript k env) M) = imageName M"
proof -
  from stage_start[OF k p] c have s: "stage M M k (DestroyPing who) [] (Some c)" by simp
  from destroy_reaches_delay[OF s k, of env] obtain q where
    q: "lastDelay q who" and
    t: "stage M (run (map (Settle k) (destroyReplies env)) M) k q (tl (cleanupCalls env c)) (Some c)"
    by auto
  have r: "run (destroyScript k env) M = settle k Resolved (run (map (Settle k) (destroyReplies env)) M)"
    by (simp add: destroyScript_def run_append run_Cons run_Nil)
  note f = stage_destroy_return[OF t k q]
  show "container (run (destroyScript k env) M) = None" unfolding r by (rule f)
  show "ttyStream (run (destroyScript k env) M) = None" unfolding r by (rule f)
  show "buffer (run (destroyScript k env) M) = []" unfolding r by (rule f)
  show "shouldStop (run (destroyScript k env) M) = False" unfolding r by (rule f)
  show "readyResolve (run (destroyScript k env) M) = Some (readyPromise (run (destroyScript k env) M))"
    unfolding r by (rule f)
  show "statusLine (run (destroyScript k env) M) = None" unfolding r by (rule f)
  show "lastWrites 5 (run (destroyScript k env) M) = clearWrites (rows M) @ [Console (doneLog who)]"
    unfolding r by (rule f)
  show "runtime (run (destroyScript k env) M) = runtime M @ tl (cleanupCalls env c)"
    unfolding r by (rule f)
  show "pending (run (destroyScript k env) M) = take k (pending M) @ drop (Suc k) (pending M)"
    unfolding r by (rule f)
  show "spawnSettled (run (destroyScript k env) M) = spawnSettled M @ (if who = SpawnCatch then [None] else [])"
    unfolding r by (rule f)
  show "destroyCalls (run (destroyScript k env) M) = destroyCalls M" unfolding r by (rule f)
  show "resetCalls (run (destroyScript k env) M) = Suc (resetCalls M)" unfolding r by (rule f)
  show "rows (run (destroyScript k env) M) = rows M" unfolding r by (rule f)
  show "tasks (run (destroyScript k env) M) = tasks M" unfolding r by (rule f)
  show "imageName (run (destroyScript k env) M) = imageName M" unfolding r by (rule f)
qed

section \<open>Properties of spawn\<close>

lemma stage_spawn_ping:
  "stage M w k (SpawnPing img) cs c \<Longrightarrow> k < length (pending M) \<Longrightarrow>
     stage M (settle k Resolved w) k (SpawnPull img) (cs @ [Pull img]) c"
  by (simp add: stage_defs)

lemma stage_spawn_pull:
  "stage M w k (SpawnPull img) cs c \<Longrightarrow> k < length (pending M) \<Longrightarrow>
     stage M (settle k Resolved w) k (SpawnCreate img) (cs @ [Create img]) c"
  by (simp add: stage_defs)

lemma stage_spawn_create:
  "stage M w k (SpawnCreate img) cs c \<Longrightarrow> k < length (pending M) \<Longrightarrow>
     stage M (settle k (ResolvedWith h) w) k SpawnStart (cs @ [Start h]) (Some h)"
  by (simp add: stage_defs startContainer_def Let_def)

lemma stage_spawn_start:
  "stage M w k SpawnStart cs (Some h) \<Longrightarrow> k < length (pending M) \<Longrightarrow>
     stage M (settle k Resolved w) k SpawnAttach (cs @ [Attach h]) (Some h)"
  by (simp add: stage_defs afterStart_def setupTTYStream_def Let_def)

lemma stage_spawn_attach:
  assumes "stage M w k SpawnAttach cs c" and "k < length (pending M)"
  shows "container (settle k (ResolvedWith s) w) = c"
    "ttyStream (settle k (ResolvedWith s) w) = Some s"
    "runtime (settle k (ResolvedWith s) w) = runtime M @ cs"
    "pending (settle k (ResolvedWith s) w) = take k (pending M) @ drop (Suc k) (pending M)"
    "spawnSettled (settle k (ResolvedWith s) w) = spawnSettled M @ [None]"
    "tasks (settle k (ResolvedWith s) w) = tasks M @ [Bg (BgNudge 1000)]"
    "listeners (settle k (ResolvedWith s) w) = listeners M @ [commandOff]"
    "destroyCalls (settle k (ResolvedWith s) w) = destroyCalls M"
    "resetCalls (settle k (ResolvedWith s) w) = resetCalls M"
  using assms by (simp_all add: stage_defs commandOff_def)

text \<open>The \<open>catch\<close> block of a spawn, without and with a container handle.\<close>

lemma stage_spawn_caught_idle:
  assumes "stage M w k p cs None" and "k < length (pending M)" and "inSpawn p"
  shows "container (settle k (Rejected e) w) = None"
    "ttyStream (settle k (Rejected e) w) = None"
    "buffer (settle k (Rejected e) w) = []"
    "shouldStop (settle k (Rejected e) w) = False"
    "readyResolve (settle k (Rejected e) w) = Some (readyPromise (settle k (Rejected e) w))"
    "statusLine (settle k (Rejected e) w) = None"
    "lastWrites 5 (settle k (Rejected e) w) = clearWrites (rows M) @ [Console LogOperationFailed]"
    "runtime (settle k (Rejected e) w) = runtime M @ cs"
    "pending (settle k (Rejected e) w) = take k (pending M) @ drop (Suc k) (pending M)"
    "spawnSettled (settle k (Rejected e) w) = spawnSettled M @ [None]"
    "destroyCalls (settle k (Rejected e) w) = destroyCalls M"
    "resetCalls (settle k (Rejected e) w) = Suc (resetCalls M)"
  using assms
  by (cases p; simp add: inSpawn_def stage_defs spawnCaught_def Let_def lastWrites_def clearWrites_def)+

lemma stage_spawn_caught_held:
  assumes "stage M w k p cs (Some h)" and "k < length (pending M)" and "inSpawn p"
  shows "container (settle k (Rejected e) w) = Some h"
    "pending (settle k (Rejected e) w) = (pending M)[k := DestroyPing SpawnCatch]"
    "runtime (settle k (Rejected e) w) = runtime M @ cs @ [Ping]"
    "ttyStream (settle k (Rejected e) w) = ttyStream M"
    "rows (settle k (Rejected e) w) = rows M"
    "spawnSettled (settle k (Rejected e) w) = spawnSettled M"
    "destroyCalls (settle k (Rejected e) w) = Suc (destroyCalls M)"
    "resetCalls (settle k (Rejected e) w) = resetCalls M"
  using assms
  by (cases p; simp add: inSpawn_def stage_defs spawnCaught_def Let_def)+

lemma spawn_begin:
  assumes "isReady w"
  shows "fst (runNewContainer img w) = None"
    "pending (snd (runNewContainer img w)) = pending w @ [SpawnPing (spawnImage img w)]"
    "runtime (snd (runNewContainer img w)) = runtime w @ [Ping]"
    "container (snd (runNewContainer img w)) = None"
    "ttyStream (snd (runNewContainer img w)) = None"
    "rows (snd (runNewContainer img w)) = rows w"
    "spawnSettled (snd (runNewContainer img w)) = spawnSettled w"
    "destroyCalls (snd (runNewContainer img w)) = destroyCalls w"
    "resetCalls (snd (runNewContainer img w)) = resetCalls w"
    "tasks (snd (runNewContainer img w)) = tasks w"
    "listeners (snd (runNewContainer img w)) = listeners w"
  using assms
  by (cases img; simp add: runNewContainer_def runContainer_def isReady_def prim_defs Let_def spawnImage_def)+

lemma w0_ready: "isReady w0"
  by (simp add: isReady_def newExecutor_def)

text \<open>
  C5. While a container or a stream is held, \<open>runNewContainer\<close> throws the error of an
  active session and changes nothing: the executor and its environment are returned as they
  were, image name included, whatever image the caller passed.
\<close>

theorem spawn_while_active_is_refused:
  "\<not> isReady w \<Longrightarrow>
     runNewContainer img w = (Some AlreadyActive, w) \<and> step (CallRunNewContainer img) w = w"
  by (simp add: runNewContainer_def)

text \<open>A second spawn with another image on the attached session.\<close>

theorem spawn_while_active_is_refused_witness:
  "\<not> isReady attached \<and>
   runNewContainer (Some ''debian:stable'') attached = (Some AlreadyActive, attached) \<and>
   step (CallRunNewContainer (Some ''debian:stable'')) attached = attached"
proof -
  have n: "\<not> isReady attached" by (simp add: isReady_def attached_handles)
  from spawn_while_active_is_refused[OF n] n show ?thesis by blast
qed

text \<open>
  A spawn that fails on an idle executor, with nothing else in between, for every outcome of
  its runtime calls and of those of the cleanup.
\<close>

lemma failed_spawn_alone:
  assumes r: "isReady w" and f: "spawnFails oc"
    and w': "w' = run (CallRunNewContainer img # spawnScript (length (pending w)) oc) w"
  shows "fst (runNewContainer img w) = None \<and>
     spawnSettled w' = spawnSettled w @ [None] \<and>
     pending w' = pending w \<and>
     statusLine w' = None \<and>
     lastWrites 5 w' = clearWrites (rows w) @ [Console LogOperationFailed] \<and>
     runtime w' = runtime w @ failedCalls oc (spawnImage img w) \<and>
     isReady w' \<and> buffer w' = [] \<and> shouldStop w' = False \<and>
     readyResolve w' = Some (readyPromise w') \<and>
     resetCalls w' = Suc (resetCalls w) \<and>
     destroyCalls w' = (if containerCreated oc then Suc (destroyCalls w) else destroyCalls w) \<and>
     fst (runNewContainer img' w') = None"
proof -
  let ?k = "length (pending w)"
  let ?M = "snd (runNewContainer img w)"
  let ?i = "spawnImage img w"
  note b = spawn_begin[OF r, of img]
  have k: "?k < length (pending ?M)" by (simp add: b)
  have p: "pending ?M ! ?k = SpawnPing ?i" by (simp add: b)
  have tk: "take ?k (pending ?M) @ drop (Suc ?k) (pending ?M) = pending w" by (simp add: b)
  from stage_start[OF k p] have s0: "stage ?M ?M ?k (SpawnPing ?i) [] None" by (simp add: b)
  have n: "\<And>x. container x = None \<Longrightarrow> ttyStream x = None \<Longrightarrow> fst (runNewContainer img' x) = None"
    by (simp add: runNewContainer_def isReady_def)
  have bc: "inSpawn (SpawnPing ?i)" "inSpawn (SpawnPull ?i)" "inSpawn (SpawnCreate ?i)"
    by (simp_all add: inSpawn_def)
  show ?thesis
  proof (cases "o_ping oc")
    case (Some e)
    have e: "w' = settle ?k (Rejected e) ?M"
      by (simp add: w' run_Cons run_Nil script_defs Some)
    note c = stage_spawn_caught_idle[OF s0 k bc(1), of e]
    from c n[OF c(1) c(2)] show ?thesis
      unfolding e by (simp add: b tk isReady_def failedCalls_def tryCalls_def
          containerCreated_def Some split: sum.split)
  next
    case ping: None
    note s1 = stage_spawn_ping[OF s0 k]
    show ?thesis
    proof (cases "o_pull oc")
      case (Some e)
      have e: "w' = settle ?k (Rejected e) (settle ?k Resolved ?M)"
        by (simp add: w' run_Cons run_Nil script_defs Some ping)
      note c = stage_spawn_caught_idle[OF s1 k bc(2), of e]
      from c n[OF c(1) c(2)] show ?thesis
        unfolding e by (simp add: b tk isReady_def failedCalls_def tryCalls_def
            containerCreated_def Some ping split: sum.split)
    next
      case pull: None
      note s2 = stage_spawn_pull[OF s1 k]
      show ?thesis
      proof (cases "o_create oc")
        case (Inl e)
        have e: "w' = settle ?k (Rejected e) (settle ?k Resolved (settle ?k Resolved ?M))"
          by (simp add: w' run_Cons run_Nil script_defs Inl ping pull)
        note c = stage_spawn_caught_idle[OF s2 k bc(3), of e]
        from c n[OF c(1) c(2)] show ?thesis
          unfolding e by (simp add: b tk isReady_def failedCalls_def tryCalls_def
              containerCreated_def Inl ping pull)
      next
        case (Inr h)
        note s3 = stage_spawn_create[OF s2 k, of h]
        have cc: "containerCreated oc" by (simp add: containerCreated_def ping pull Inr)
        show ?thesis
        proof (cases "o_start oc")
          case (Some e)
          let ?M2 = "settle ?k (Rejected e) (settle ?k (ResolvedWith h) (settle ?k Resolved (settle ?k Resolved ?M)))"
          have e: "w' = run (destroyScript ?k (o_cleanup oc)) ?M2"
            using f by (simp add: w' run_Cons run_Nil run_append spawnScript_def tryScript_def tryReplies_def
                answer_def answerWith_def cc Inr ping pull Some)
          have ac: "inSpawn SpawnStart" by (simp add: inSpawn_def)
          note h = stage_spawn_caught_held[OF s3 k ac, of e]
          have k2: "?k < length (pending ?M2)" by (simp add: h b)
          have p2: "pending ?M2 ! ?k = DestroyPing SpawnCatch" by (simp add: h b)
          note d = destroy_alone[OF k2 p2 h(1), of "o_cleanup oc"]
          from d n[OF d(1) d(2)] show ?thesis
            unfolding e by (simp add: h b isReady_def failedCalls_def tryCalls_def
                cleanupCalls_def doneLog_def cc Inr ping pull Some)
        next
          case start: None
          note s4 = stage_spawn_start[OF s3 k]
          from f ping pull Inr start obtain e where a: "o_attach oc = Inl e"
            by (cases "o_attach oc") (auto simp: spawnFails_def)
          let ?M2 = "settle ?k (Rejected e) (settle ?k Resolved (settle ?k (ResolvedWith h)
                       (settle ?k Resolved (settle ?k Resolved ?M))))"
          have e: "w' = run (destroyScript ?k (o_cleanup oc)) ?M2"
            using f by (simp add: w' run_Cons run_Nil run_append spawnScript_def tryScript_def tryReplies_def
                answer_def answerWith_def cc Inr ping pull start a)
          have ac: "inSpawn SpawnAttach" by (simp add: inSpawn_def)
          note h = stage_spawn_caught_held[OF s4 k ac, of e]
          have k2: "?k < length (pending ?M2)" by (simp add: h b)
          have p2: "pending ?M2 ! ?k = DestroyPing SpawnCatch" by (simp add: h b)
          note d = destroy_alone[OF k2 p2 h(1), of "o_cleanup oc"]
          from d n[OF d(1) d(2)] show ?thesis
            unfolding e by (simp add: h b isReady_def failedCalls_def tryCalls_def
                cleanupCalls_def doneLog_def cc Inr ping pull start)
        qed
      qed
    qed
  qed
qed


text \<open>
  C7. When a runtime call of a spawn fails (ping, pull, create, start or attach), on an idle
  executor and with nothing else in between, \<open>runNewContainer\<close> does not throw and the
  promise of \<open>runContainer\<close> resolves. The runtime has been called in this order and no
  further: the calls of the \<open>try\<close> block up to the one that failed and, exactly when the
  container had been created, the ping, the stop and the remove of \<open>destroyContainer\<close> (no
  remove after a stop that failed otherwise than with 304, nothing after a ping that failed).
  The last writes to the terminal are the four of \<open>clearStatus\<close> and the closing log line,
  and no status is on display. The state has been reset once: the executor is idle with an
  empty buffer, the stop flag down and a fresh ready promise; no call is left pending; and a
  further spawn is accepted.

  Whatever else is pending, and in every state: a rejection that reaches a pending spawn
  while no container handle is held ends the spawn in that step, with the promise resolved,
  the status cleared, the state reset, and no call to the runtime; a rejection that reaches it
  while a container handle is held starts \<open>destroyContainer\<close> (the ping is sent) and the spawn
  waits for it; and when the last delay of that \<open>destroyContainer\<close> is over the spawn ends in
  the same way, with the promise resolved, the status cleared and the state reset.
\<close>

theorem failed_spawn_resets_to_idle:
  "(isReady w \<and> spawnFails oc \<and>
    w' = run (CallRunNewContainer img # spawnScript (length (pending w)) oc) w \<longrightarrow>
      fst (runNewContainer img w) = None \<and>
      spawnSettled w' = spawnSettled w @ [None] \<and>
      pending w' = pending w \<and>
      statusLine w' = None \<and>
      lastWrites 5 w' = clearWrites (rows w) @ [Console LogOperationFailed] \<and>
      runtime w' = runtime w @ failedCalls oc (spawnImage img w) \<and>
      isReady w' \<and> buffer w' = [] \<and> shouldStop w' = False \<and>
      readyResolve w' = Some (readyPromise w') \<and>
      resetCalls w' = Suc (resetCalls w) \<and>
      destroyCalls w' = (if containerCreated oc then Suc (destroyCalls w) else destroyCalls w) \<and>
      fst (runNewContainer img' w') = None) \<and>
   (k < length (pending w) \<and> inSpawn (pending w ! k) \<and> container w = None \<and>
    x = step (Settle k (Rejected e)) w \<longrightarrow>
      isReady x \<and> buffer x = [] \<and> shouldStop x = False \<and>
      readyResolve x = Some (readyPromise x) \<and>
      statusLine x = None \<and>
      lastWrites 5 x = clearWrites (rows w) @ [Console LogOperationFailed] \<and>
      runtime x = runtime w \<and>
      spawnSettled x = spawnSettled w @ [None] \<and>
      pending x = take k (pending w) @ drop (Suc k) (pending w) \<and>
      resetCalls x = Suc (resetCalls w) \<and> destroyCalls x = destroyCalls w) \<and>
   (k < length (pending w) \<and> inSpawn (pending w ! k) \<and> container w = Some c \<and>
    y = step (Settle k (Rejected e)) w \<longrightarrow>
      pending y = (pending w)[k := DestroyPing SpawnCatch] \<and>
      runtime y = runtime w @ [Ping] \<and>
      destroyCalls y = Suc (destroyCalls w) \<and>
      container y = Some c \<and> spawnSettled y = spawnSettled w \<and> resetCalls y = resetCalls w) \<and>
   (k < length (pending w) \<and> lastDelay (pending w ! k) SpawnCatch \<and>
    z = step (Settle k Resolved) w \<longrightarrow>
      isReady z \<and> buffer z = [] \<and> shouldStop z = False \<and>
      readyResolve z = Some (readyPromise z) \<and>
      statusLine z = None \<and>
      lastWrites 5 z = clearWrites (rows w) @ [Console LogOperationFailed] \<and>
      runtime z = runtime w \<and>
      spawnSettled z = spawnSettled w @ [None] \<and>
      pending z = take k (pending w) @ drop (Suc k) (pending w) \<and>
      resetCalls z = Suc (resetCalls w) \<and> destroyCalls z = destroyCalls w)"
proof (intro conjI impI)
  assume a: "isReady w \<and> spawnFails oc \<and>
    w' = run (CallRunNewContainer img # spawnScript (length (pending w)) oc) w"
  from a have r: "isReady w" and f: "spawnFails oc"
    and w': "w' = run (CallRunNewContainer img # spawnScript (length (pending w)) oc) w"
    by simp_all
  note t = failed_spawn_alone[OF r f w', of img']
  from t show "fst (runNewContainer img w) = None" by simp
  from t show "spawnSettled w' = spawnSettled w @ [None]" by simp
  from t show "pending w' = pending w" by simp
  from t show "statusLine w' = None" by simp
  from t show "lastWrites 5 w' = clearWrites (rows w) @ [Console LogOperationFailed]" by simp
  from t show "runtime w' = runtime w @ failedCalls oc (spawnImage img w)" by simp
  from t show "isReady w'" by simp
  from t show "buffer w' = []" by simp
  from t show "shouldStop w' = False" by simp
  from t show "readyResolve w' = Some (readyPromise w')" by simp
  from t show "resetCalls w' = Suc (resetCalls w)" by simp
  from t show "destroyCalls w' = (if containerCreated oc then Suc (destroyCalls w) else destroyCalls w)"
    by simp
  from t show "fst (runNewContainer img' w') = None" by simp
next
  assume a: "k < length (pending w) \<and> inSpawn (pending w ! k) \<and> container w = None \<and>
    x = step (Settle k (Rejected e)) w"
  from a have k: "k < length (pending w)" and i: "inSpawn (pending w ! k)" and c: "container w = None"
    and x: "x = settle k (Rejected e) w"
    by simp_all
  from stage_start[OF k refl] c have s: "stage w w k (pending w ! k) [] None" by simp
  note t = stage_spawn_caught_idle[OF s k i, of e, folded x]
  from t show "isReady x" by (simp add: isReady_def)
  from t show "buffer x = []" by simp
  from t show "shouldStop x = False" by simp
  from t show "readyResolve x = Some (readyPromise x)" by simp
  from t show "statusLine x = None" by simp
  from t show "lastWrites 5 x = clearWrites (rows w) @ [Console LogOperationFailed]" by simp
  from t show "runtime x = runtime w" by simp
  from t show "spawnSettled x = spawnSettled w @ [None]" by simp
  from t show "pending x = take k (pending w) @ drop (Suc k) (pending w)" by simp
  from t show "resetCalls x = Suc (resetCalls w)" by simp
  from t show "destroyCalls x = destroyCalls w" by simp
next
  assume a: "k < length (pending w) \<and> inSpawn (pending w ! k) \<and> container w = Some c \<and>
    y = step (Settle k (Rejected e)) w"
  from a have k: "k < length (pending w)" and i: "inSpawn (pending w ! k)" and c: "container w = Some c"
    and y: "y = settle k (Rejected e) w"
    by simp_all
  from stage_start[OF k refl] c have s: "stage w w k (pending w ! k) [] (Some c)" by simp
  note t = stage_spawn_caught_held[OF s k i, of e, folded y]
  from t show "pending y = (pending w)[k := DestroyPing SpawnCatch]" by simp
  from t show "runtime y = runtime w @ [Ping]" by simp
  from t show "destroyCalls y = Suc (destroyCalls w)" by simp
  from t show "container y = Some c" by simp
  from t show "spawnSettled y = spawnSettled w" by simp
  from t show "resetCalls y = resetCalls w" by simp
next
  assume a: "k < length (pending w) \<and> lastDelay (pending w ! k) SpawnCatch \<and>
    z = step (Settle k Resolved) w"
  from a have k: "k < length (pending w)" and l: "lastDelay (pending w ! k) SpawnCatch"
    and z: "z = settle k Resolved w"
    by simp_all
  from stage_start[OF k refl] have s: "stage w w k (pending w ! k) [] (container w)" .
  note t = stage_destroy_return[OF s k l, folded z]
  from t show "isReady z" by (simp add: isReady_def)
  from t show "buffer z = []" by simp
  from t show "shouldStop z = False" by simp
  from t show "readyResolve z = Some (readyPromise z)" by simp
  from t show "statusLine z = None" by simp
  from t show "lastWrites 5 z = clearWrites (rows w) @ [Console LogOperationFailed]"
    by (simp add: doneLog_def)
  from t show "runtime z = runtime w" by simp
  from t show "spawnSettled z = spawnSettled w @ [None]" by simp
  from t show "pending z = take k (pending w) @ drop (Suc k) (pending w)" by simp
  from t show "resetCalls z = Suc (resetCalls w)" by simp
  from t show "destroyCalls z = destroyCalls w" by simp
qed

text \<open>
  On a fresh executor: a start that fails after the container was created, a runtime that
  does not answer the ping, and the three steps of the \<open>catch\<close> block one by one.
\<close>

theorem failed_spawn_resets_to_idle_witness:
  "isReady w0 \<and> spawnFails startFails \<and> containerCreated startFails \<and>
   spawnSettled (run (CallRunNewContainer None # spawnScript 0 startFails) w0) = [None] \<and>
   statusLine (run (CallRunNewContainer None # spawnScript 0 startFails) w0) = None \<and>
   lastWrites 5 (run (CallRunNewContainer None # spawnScript 0 startFails) w0)
     = clearWrites (Some 24) @ [Console LogOperationFailed] \<and>
   runtime (run (CallRunNewContainer None # spawnScript 0 startFails) w0)
     = [Ping, Pull ''ubuntu:latest'', Create ''ubuntu:latest'', Start 1, Ping, StopContainer 1, Remove 1] \<and>
   isReady (run (CallRunNewContainer None # spawnScript 0 startFails) w0) \<and>
   resetCalls (run (CallRunNewContainer None # spawnScript 0 startFails) w0) = 1 \<and>
   destroyCalls (run (CallRunNewContainer None # spawnScript 0 startFails) w0) = 1 \<and>
   fst (runNewContainer None (run (CallRunNewContainer None # spawnScript 0 startFails) w0)) = None \<and>
   spawnFails pingFails \<and>
   runtime (run (CallRunNewContainer None # spawnScript 0 pingFails) w0) = [Ping] \<and>
   destroyCalls (run (CallRunNewContainer None # spawnScript 0 pingFails) w0) = 0 \<and>
   pending (step (CallRunNewContainer None) w0) = [SpawnPing ''ubuntu:latest''] \<and>
   container (step (CallRunNewContainer None) w0) = None \<and>
   isReady (step (Settle 0 (Rejected noRuntime)) (step (CallRunNewContainer None) w0)) \<and>
   spawnSettled (step (Settle 0 (Rejected noRuntime)) (step (CallRunNewContainer None) w0)) = [None] \<and>
   pending (run [CallRunNewContainer None, Settle 0 Resolved, Settle 0 Resolved, Settle 0 (ResolvedWith 1)] w0)
     = [SpawnStart] \<and>
   container (run [CallRunNewContainer None, Settle 0 Resolved, Settle 0 Resolved, Settle 0 (ResolvedWith 1)] w0)
     = Some 1 \<and>
   pending (step (Settle 0 (Rejected noSuchContainer))
              (run [CallRunNewContainer None, Settle 0 Resolved, Settle 0 Resolved, Settle 0 (ResolvedWith 1)] w0))
     = [DestroyPing SpawnCatch] \<and>
   destroyCalls (step (Settle 0 (Rejected noSuchContainer))
              (run [CallRunNewContainer None, Settle 0 Resolved, Settle 0 Resolved, Settle 0 (ResolvedWith 1)] w0))
     = 1 \<and>
   pending (run [CallRunNewContainer None, Settle 0 Resolved, Settle 0 Resolved, Settle 0 (ResolvedWith 1),
                 Settle 0 (Rejected noSuchContainer), Settle 0 (Rejected noRuntime)] w0)
     = [DestroyUnavailable SpawnCatch] \<and>
   isReady (step (Settle 0 Resolved)
              (run [CallRunNewContainer None, Settle 0 Resolved, Settle 0 Resolved, Settle 0 (ResolvedWith 1),
                    Settle 0 (Rejected noSuchContainer), Settle 0 (Rejected noRuntime)] w0)) \<and>
   spawnSettled (step (Settle 0 Resolved)
              (run [CallRunNewContainer None, Settle 0 Resolved, Settle 0 Resolved, Settle 0 (ResolvedWith 1),
                    Settle 0 (Rejected noSuchContainer), Settle 0 (Rejected noRuntime)] w0)) = [None]"
proof -
  let ?m1 = "step (CallRunNewContainer None) w0"
  let ?m4 = "run [CallRunNewContainer None, Settle 0 Resolved, Settle 0 Resolved, Settle 0 (ResolvedWith 1)] w0"
  let ?m6 = "run [CallRunNewContainer None, Settle 0 Resolved, Settle 0 Resolved, Settle 0 (ResolvedWith 1),
                 Settle 0 (Rejected noSuchContainer), Settle 0 (Rejected noRuntime)] w0"
  have s: "spawnFails startFails" "containerCreated startFails" "spawnFails pingFails"
    "\<not> containerCreated pingFails"
    by (simp_all add: startFails_def pingFails_def spawnFails_def containerCreated_def)
  have z: "resetCalls w0 = 0" "destroyCalls w0 = 0" "pending w0 = []" "runtime w0 = []"
    "spawnSettled w0 = []" "rows w0 = Some 24" "imageName w0 = ''ubuntu:latest''"
    by (simp_all add: newExecutor_def)
  note b = spawn_begin[OF w0_ready, of None]
  have k: "length (pending w0) < length (pending (snd (runNewContainer None w0)))"
    "pending (snd (runNewContainer None w0)) ! length (pending w0) = SpawnPing ''ubuntu:latest''"
    by (simp_all add: b z spawnImage_def)
  from stage_start[OF k] have s0: "stage (snd (runNewContainer None w0)) (snd (runNewContainer None w0))
      (length (pending w0)) (SpawnPing ''ubuntu:latest'') [] None"
    by (simp add: b)
  note s1 = stage_spawn_ping[OF s0 k(1)]
  note s2 = stage_spawn_pull[OF s1 k(1)]
  note s3 = stage_spawn_create[OF s2 k(1), of 1]
  have i: "inSpawn SpawnStart" by (simp add: inSpawn_def)
  note s4 = stage_spawn_caught_held[OF s3 k(1) i, of noSuchContainer]
  have m1: "pending ?m1 = [SpawnPing ''ubuntu:latest'']" "container ?m1 = None"
    "spawnSettled ?m1 = []" "destroyCalls ?m1 = 0"
    by (simp_all add: b z spawnImage_def)
  have m4: "pending ?m4 = [SpawnStart]" "container ?m4 = Some 1" "spawnSettled ?m4 = []"
    "destroyCalls ?m4 = 0"
    using s3 by (simp_all add: run_Cons run_Nil stage_def b z spawnImage_def)
  have m5: "pending (settle 0 (Rejected noSuchContainer) ?m4) = [DestroyPing SpawnCatch]"
    "spawnSettled (settle 0 (Rejected noSuchContainer) ?m4) = []"
    using s4 by (simp_all add: run_Cons run_Nil b z spawnImage_def)
  let ?M2 = "settle (length (pending w0)) (Rejected noSuchContainer)
      (settle (length (pending w0)) (ResolvedWith 1) (settle (length (pending w0)) Resolved
        (settle (length (pending w0)) Resolved (snd (runNewContainer None w0)))))"
  have k2: "0 < length (pending ?M2)" "pending ?M2 ! 0 = DestroyPing SpawnCatch"
    using s4 by (simp_all add: b z)
  from stage_start[OF k2] have t0: "stage ?M2 ?M2 0 (DestroyPing SpawnCatch) [] (container ?M2)" .
  note t1 = stage_destroy_unavailable[OF t0 k2(1), of noRuntime]
  have m6: "pending ?m6 = [DestroyUnavailable SpawnCatch]" "spawnSettled ?m6 = []"
    using t1 s4 by (simp_all add: run_Cons run_Nil stage_def b z)
  have l: "lastDelay (DestroyUnavailable SpawnCatch) SpawnCatch" by (simp add: lastDelay_def)
  have h1: "isReady w0 \<and> spawnFails startFails \<and>
      run (CallRunNewContainer None # spawnScript (length (pending w0)) startFails) w0
        = run (CallRunNewContainer None # spawnScript (length (pending w0)) startFails) w0"
    by (simp add: w0_ready s)
  have h2: "isReady w0 \<and> spawnFails pingFails \<and>
      run (CallRunNewContainer None # spawnScript (length (pending w0)) pingFails) w0
        = run (CallRunNewContainer None # spawnScript (length (pending w0)) pingFails) w0"
    by (simp add: w0_ready s)
  have h3: "0 < length (pending ?m1) \<and> inSpawn (pending ?m1 ! 0) \<and> container ?m1 = None \<and>
      step (Settle 0 (Rejected noRuntime)) ?m1 = step (Settle 0 (Rejected noRuntime)) ?m1"
    using m1 by (simp add: inSpawn_def)
  have h4: "0 < length (pending ?m4) \<and> inSpawn (pending ?m4 ! 0) \<and> container ?m4 = Some 1 \<and>
      step (Settle 0 (Rejected noSuchContainer)) ?m4 = step (Settle 0 (Rejected noSuchContainer)) ?m4"
    using m4 by (simp add: inSpawn_def)
  have h5: "0 < length (pending ?m6) \<and> lastDelay (pending ?m6 ! 0) SpawnCatch \<and>
      step (Settle 0 Resolved) ?m6 = step (Settle 0 Resolved) ?m6"
    using m6 by (simp add: lastDelay_def)
  note a1 = failed_spawn_resets_to_idle[where img'=None, THEN conjunct1, THEN mp, OF h1]
  note a2 = failed_spawn_resets_to_idle[where img'=None, THEN conjunct1, THEN mp, OF h2]
  note a3 = failed_spawn_resets_to_idle[THEN conjunct2, THEN conjunct1, THEN mp, OF h3]
  note a4 = failed_spawn_resets_to_idle[THEN conjunct2, THEN conjunct2, THEN conjunct1, THEN mp, OF h4]
  note a5 = failed_spawn_resets_to_idle[THEN conjunct2, THEN conjunct2, THEN conjunct2, THEN mp, OF h5]
  have c: "failedCalls startFails ''ubuntu:latest''
      = [Ping, Pull ''ubuntu:latest'', Create ''ubuntu:latest'', Start 1, Ping, StopContainer 1, Remove 1]"
    "failedCalls pingFails ''ubuntu:latest'' = [Ping]"
    by (simp_all add: startFails_def pingFails_def failedCalls_def tryCalls_def cleanupCalls_def
          containerCreated_def stopPasses_def)
  have i0: "spawnImage None w0 = ''ubuntu:latest''" by (simp add: spawnImage_def z)
  note b1 = a1[unfolded i0 c z s if_True]
  note b2 = a2[unfolded i0 c z s if_False]
  from b1 s have 1: "spawnSettled (run (CallRunNewContainer None # spawnScript 0 startFails) w0) = [None]"
    "statusLine (run (CallRunNewContainer None # spawnScript 0 startFails) w0) = None"
    "lastWrites 5 (run (CallRunNewContainer None # spawnScript 0 startFails) w0)
       = clearWrites (Some 24) @ [Console LogOperationFailed]"
    "runtime (run (CallRunNewContainer None # spawnScript 0 startFails) w0)
       = [Ping, Pull ''ubuntu:latest'', Create ''ubuntu:latest'', Start 1, Ping, StopContainer 1, Remove 1]"
    "isReady (run (CallRunNewContainer None # spawnScript 0 startFails) w0)"
    "resetCalls (run (CallRunNewContainer None # spawnScript 0 startFails) w0) = 1"
    "destroyCalls (run (CallRunNewContainer None # spawnScript 0 startFails) w0) = 1"
    "fst (runNewContainer None (run (CallRunNewContainer None # spawnScript 0 startFails) w0)) = None"
    by simp_all
  from b2 s have 2: "runtime (run (CallRunNewContainer None # spawnScript 0 pingFails) w0) = [Ping]"
    "destroyCalls (run (CallRunNewContainer None # spawnScript 0 pingFails) w0) = 0"
    by simp_all
  from a3 m1 have 3: "isReady (step (Settle 0 (Rejected noRuntime)) ?m1)"
    "spawnSettled (step (Settle 0 (Rejected noRuntime)) ?m1) = [None]"
    by simp_all
  from a4 m4 have 4: "pending (step (Settle 0 (Rejected noSuchContainer)) ?m4) = [DestroyPing SpawnCatch]"
    "destroyCalls (step (Settle 0 (Rejected noSuchContainer)) ?m4) = 1"
    by simp_all
  from a5 m6 have 5: "isReady (step (Settle 0 Resolved) ?m6)"
    "spawnSettled (step (Settle 0 Resolved) ?m6) = [None]"
    by simp_all
  show ?thesis
    by (intro conjI) (rule w0_ready s 1 2 3 4 5 m1 m4 m6)+
qed

section \<open>Properties of the teardown\<close>

lemma stop_frame:
  "container (stop w) = container w" "ttyStream (stop w) = ttyStream w"
  "pending (stop w) = pending w" "destroyCalls (stop w) = destroyCalls w"
  "resetCalls (stop w) = resetCalls w" "runtime (stop w) = runtime w"
  by (simp_all add: stop_def endStream_def prim_defs split: option.split)

lemma onEnd_held:
  assumes "container w \<noteq> None"
  shows "container (onEnd w) = container w" "ttyStream (onEnd w) = ttyStream w"
    "pending (onEnd w) = pending w @ [DestroyPing EndHandler]"
    "destroyCalls (onEnd w) = Suc (destroyCalls w)" "resetCalls (onEnd w) = resetCalls w"
    "runtime (onEnd w) = runtime w @ [Ping]"
  using assms by (simp_all add: onEnd_def beginDestroy_def prim_defs Let_def)

lemma onEnd_idle:
  assumes "container w = None"
  shows "container (onEnd w) = None" "ttyStream (onEnd w) = None"
    "pending (onEnd w) = pending w"
    "destroyCalls (onEnd w) = destroyCalls w" "resetCalls (onEnd w) = Suc (resetCalls w)"
    "runtime (onEnd w) = runtime w"
  using assms by (simp_all add: onEnd_def prim_defs Let_def)

lemma onError_held:
  assumes "container w \<noteq> None"
  shows "container (onError e w) = container w" "ttyStream (onError e w) = ttyStream w"
    "pending (onError e w) = pending w @ [DestroyPing ErrorHandler]"
    "destroyCalls (onError e w) = Suc (destroyCalls w)" "resetCalls (onError e w) = resetCalls w"
    "runtime (onError e w) = runtime w @ [Ping]"
  using assms by (simp_all add: onError_def beginDestroy_def prim_defs Let_def)

lemma onError_idle:
  assumes "container w = None"
  shows "container (onError e w) = None" "ttyStream (onError e w) = None"
    "pending (onError e w) = pending w"
    "destroyCalls (onError e w) = destroyCalls w" "resetCalls (onError e w) = Suc (resetCalls w)"
    "runtime (onError e w) = runtime w"
  using assms by (simp_all add: onError_def prim_defs Let_def)


section \<open>Pending calls that overlap\<close>

lemmas held_defs = held_def settle_def prim_defs

lemma held_stop: "held w c s ps d r cs \<Longrightarrow> held (stop w) c s ps d r cs"
  by (simp add: held_def stop_frame)

lemma held_end:
  "held w (Some h) s ps d r cs \<Longrightarrow>
     held (onEnd w) (Some h) s (ps @ [DestroyPing EndHandler]) (Suc d) r (cs @ [Ping])"
  by (simp add: held_def onEnd_held)

lemma held_error:
  "held w (Some h) s ps d r cs \<Longrightarrow>
     held (onError e w) (Some h) s (ps @ [DestroyPing ErrorHandler]) (Suc d) r (cs @ [Ping])"
  by (simp add: held_def onError_held)

lemma held_error_idle:
  "held w None s ps d r cs \<Longrightarrow> held (onError e w) None None ps d (Suc r) cs"
  by (simp add: held_def onError_idle)

lemma held_spawn:
  "held w None None ps d r cs \<Longrightarrow>
     held (snd (runNewContainer img w)) None None (ps @ [SpawnPing (spawnImage img w)]) d r (cs @ [Ping])"
  by (simp add: held_def spawn_begin isReady_def)

lemma held_destroy_ping:
  "held w (Some h) s ps d r cs \<Longrightarrow> k < length ps \<Longrightarrow> ps ! k = DestroyPing who \<Longrightarrow>
     held (settle k Resolved w) (Some h) s (ps[k := DestroyStop who]) d r (cs @ [StopContainer h])"
  by (simp add: held_defs destroyStop_def)

lemma held_destroy_stop:
  "held w (Some h) s ps d r cs \<Longrightarrow> k < length ps \<Longrightarrow> ps ! k = DestroyStop who \<Longrightarrow>
     held (settle k Resolved w) (Some h) s (ps[k := DestroyRemove who]) d r (cs @ [Remove h])"
  by (simp add: held_defs destroyRemove_def)

lemma held_destroy_thrown:
  "held w c s ps d r cs \<Longrightarrow> statusCode e \<noteq> Some 304 \<Longrightarrow> \<not> connectionLost e \<Longrightarrow>
   k < length ps \<Longrightarrow> ps ! k = DestroyStop who \<Longrightarrow>
     held (settle k (Rejected e) w) c s (ps[k := DestroyFinal who]) d r cs"
  by (simp add: held_defs destroyCaught_def)

lemma held_destroy_remove:
  "held w c s ps d r cs \<Longrightarrow> k < length ps \<Longrightarrow> ps ! k = DestroyRemove who \<Longrightarrow>
     held (settle k Resolved w) c s (ps[k := DestroyFinal who]) d r cs"
  by (simp add: held_defs)

lemma held_destroy_return:
  "held w c s ps d r cs \<Longrightarrow> k < length ps \<Longrightarrow> ps ! k = DestroyFinal who \<Longrightarrow>
     held (settle k Resolved w) None None (take k ps @ drop (Suc k) ps) d (Suc r) cs"
  by (cases who) (simp_all add: held_defs afterDestroy_def)

lemma held_spawn_ping:
  "held w c s ps d r cs \<Longrightarrow> k < length ps \<Longrightarrow> ps ! k = SpawnPing img \<Longrightarrow>
     held (settle k Resolved w) c s (ps[k := SpawnPull img]) d r (cs @ [Pull img])"
  by (simp add: held_defs)

lemma held_spawn_pull:
  "held w c s ps d r cs \<Longrightarrow> k < length ps \<Longrightarrow> ps ! k = SpawnPull img \<Longrightarrow>
     held (settle k Resolved w) c s (ps[k := SpawnCreate img]) d r (cs @ [Create img])"
  by (simp add: held_defs)

lemma held_spawn_create:
  "held w c s ps d r cs \<Longrightarrow> k < length ps \<Longrightarrow> ps ! k = SpawnCreate img \<Longrightarrow>
     held (settle k (ResolvedWith h) w) (Some h) s (ps[k := SpawnStart]) d r (cs @ [Start h])"
  by (simp add: held_defs startContainer_def Let_def)

lemma held_spawn_start:
  "held w (Some h) s ps d r cs \<Longrightarrow> k < length ps \<Longrightarrow> ps ! k = SpawnStart \<Longrightarrow>
     held (settle k Resolved w) (Some h) s (ps[k := SpawnAttach]) d r (cs @ [Attach h])"
  by (simp add: held_defs afterStart_def setupTTYStream_def Let_def)

lemma held_spawn_attach:
  "held w c s ps d r cs \<Longrightarrow> k < length ps \<Longrightarrow> ps ! k = SpawnAttach \<Longrightarrow>
     held (settle k (ResolvedWith t) w) c (Some t) (take k ps @ drop (Suc k) ps) d r cs"
  by (simp add: held_defs)

lemma noSuchContainer_thrown:
  "statusCode noSuchContainer \<noteq> Some 304" "\<not> connectionLost noSuchContainer"
  by (simp_all add: connectionLost_def)

lemma held_attached:
  "held attached (Some 1) (Some 2) [] 0 0
     [Ping, Pull ''ubuntu:latest'', Create ''ubuntu:latest'', Start 1, Attach 1]"
  by (simp add: held_def attached_simps attached_more)



section \<open>Properties of the two handles\<close>

lemma keeps: "container w' = container w \<Longrightarrow> ttyStream w' = ttyStream w \<Longrightarrow> keepsOrResets w w'"
  by (simp add: keepsOrResets_def)

lemma resets: "container w' = None \<Longrightarrow> ttyStream w' = None \<Longrightarrow> keepsOrResets w w'"
  by (simp add: keepsOrResets_def isReady_def)

lemma keepsOrResets_refl: "keepsOrResets w w"
  by (simp add: keepsOrResets_def)

lemma keepsOrResets_trans: "keepsOrResets w w' \<Longrightarrow> keepsOrResets w' w'' \<Longrightarrow> keepsOrResets w w''"
  by (auto simp: keepsOrResets_def isReady_def)

lemma keepsOrResets_paired: "keepsOrResets w w' \<Longrightarrow> paired w \<Longrightarrow> paired w'"
  by (auto simp: keepsOrResets_def isReady_def paired_def)

lemma prim_handles:
  "container (console l w) = container w" "ttyStream (console l w) = ttyStream w"
  "container (updateStatus m w) = container w" "ttyStream (updateStatus m w) = ttyStream w"
  "container (clearStatus w) = container w" "ttyStream (clearStatus w) = ttyStream w"
  "container (restoreTerminal w) = container w" "ttyStream (restoreTerminal w) = ttyStream w"
  "container (call c w) = container w" "ttyStream (call c w) = ttyStream w"
  "container (addPending p w) = container w" "ttyStream (addPending p w) = ttyStream w"
  "container (addTask t w) = container w" "ttyStream (addTask t w) = ttyStream w"
  "container (spawnReturn w) = container w" "ttyStream (spawnReturn w) = ttyStream w"
  "container (destroyStart w) = container w" "ttyStream (destroyStart w) = ttyStream w"
  "container (sendInput i w) = container w" "ttyStream (sendInput i w) = ttyStream w"
  "container (endStream w) = container w" "ttyStream (endStream w) = ttyStream w"
  "container (stdoutWrite i w) = container w" "ttyStream (stdoutWrite i w) = ttyStream w"
  "container (resetState w) = None" "ttyStream (resetState w) = None"
  by (simp_all add: prim_defs sendInput_def endStream_def stdoutWrite_def split: option.split)

lemma handles_stop: "container (stop w) = container w" "ttyStream (stop w) = ttyStream w"
  by (simp_all add: stop_def prim_handles)

lemma handles_command:
  "container (handleInternalCommand c w) = container w" "ttyStream (handleInternalCommand c w) = ttyStream w"
  by (simp_all add: handleInternalCommand_def handles_stop prim_handles)

lemma handles_onData: "container (onData d w) = container w" "ttyStream (onData d w) = ttyStream w"
  by (simp_all add: onData_def Let_def split: option.split)

lemma handles_wake: "container (wake w) = container w" "ttyStream (wake w) = ttyStream w"
  by (simp_all add: wake_def)

lemma handles_expire: "container (expire t w) = container w \<and> ttyStream (expire t w) = ttyStream w"
  by (cases "(t, w)" rule: expire.cases)
     (simp_all add: prim_handles setupTerminalReservation_def Let_def split: option.split)

lemma handles_fold_expire:
  "container (fold expire ts w) = container w \<and> ttyStream (fold expire ts w) = ttyStream w"
  by (induction ts arbitrary: w) (simp_all add: handles_expire)

lemma handles_elapse: "container (elapse n w) = container w" "ttyStream (elapse n w) = ttyStream w"
  by (simp_all add: elapse_def Let_def handles_wake handles_fold_expire)

lemma keepsOrResets_onEnd: "keepsOrResets w (onEnd w)"
  by (cases "container w") (simp_all add: onEnd_def Let_def beginDestroy_def prim_handles keeps resets)

lemma keepsOrResets_onError: "keepsOrResets w (onError e w)"
  by (cases "container w") (simp_all add: onError_def Let_def beginDestroy_def prim_handles keeps resets)

lemma keepsOrResets_onInterrupt: "keepsOrResets w (onInterrupt w)"
  by (cases "container w") (simp_all add: onInterrupt_def Let_def beginDestroy_def prim_handles keeps resets)

lemma keepsOrResets_onStdin: "keepsOrResets w (snd (onStdin data (l, w)))"
  by (simp add: onStdin_def keepsOrResets_onInterrupt keeps prim_handles handles_command)

lemma keepsOrResets_emitStdin: "keepsOrResets w (snd (emitStdin data ls w))"
proof (induction ls arbitrary: w)
  case Nil
  show ?case by (simp add: keepsOrResets_refl)
next
  case (Cons l ls)
  obtain l' w' where o: "onStdin data (l, w) = (l', w')" by (cases "onStdin data (l, w)")
  obtain ls' w'' where e: "emitStdin data ls w' = (ls', w'')" by (cases "emitStdin data ls w'")
  from keepsOrResets_onStdin[of w data l] o have 1: "keepsOrResets w w'" by simp
  from Cons.IH[of w'] e have 2: "keepsOrResets w' w''" by simp
  from keepsOrResets_trans[OF 1 2] o e show ?case by simp
qed

lemma keepsOrResets_stdinData: "keepsOrResets w (stdinData data w)"
proof (cases "stdinPaused w")
  case True
  then show ?thesis by (simp add: stdinData_def keepsOrResets_refl)
next
  case False
  obtain ls w' where e: "emitStdin data (listeners w) w = (ls, w')"
    by (cases "emitStdin data (listeners w) w")
  from keepsOrResets_emitStdin[of w data "listeners w"] e have "keepsOrResets w w'" by simp
  then show ?thesis using False e by (simp add: stdinData_def keepsOrResets_def isReady_def)
qed

lemma keepsOrResets_spawn: "keepsOrResets w (snd (runNewContainer img w))"
  by (cases img) (simp_all add: runNewContainer_def runContainer_def Let_def prim_handles keeps keepsOrResets_refl)

lemma keepsOrResets_afterDestroy: "keepsOrResets w (afterDestroy who w')"
  by (cases who) (simp_all add: afterDestroy_def prim_handles resets)

lemma keepsOrResets_spawnCaught:
  "container w' = container w \<Longrightarrow> ttyStream w' = ttyStream w \<Longrightarrow> keepsOrResets w (snd (spawnCaught f w'))"
  by (cases "container w") (simp_all add: spawnCaught_def Let_def prim_handles keeps resets)

lemma handles_destroyRemove:
  "container (snd (destroyRemove who w)) = container w" "ttyStream (snd (destroyRemove who w)) = ttyStream w"
  by (simp_all add: destroyRemove_def prim_handles split: option.split)

lemma handles_destroyStop:
  "container (snd (destroyStop who w)) = container w" "ttyStream (snd (destroyStop who w)) = ttyStream w"
  by (simp_all add: destroyStop_def handles_destroyRemove prim_handles split: option.split)

lemma handles_destroyCaught:
  "container (snd (destroyCaught who e w)) = container w" "ttyStream (snd (destroyCaught who e w)) = ttyStream w"
  by (simp_all add: destroyCaught_def prim_handles)

lemma keepsOrResets_afterStart: "keepsOrResets w (snd (afterStart w))"
  by (cases "container w")
     (simp_all add: afterStart_def setupTTYStream_def sessionStarted_def setupTTYSTDIN_def Let_def
        prim_handles keeps resets)

lemma keepsOrResets_resume:
  "resume p r w = Some x \<Longrightarrow> keepsOrResets w (snd x) \<or> assignsHandle p r"
  by (cases "(p, r, w)" rule: resume.cases)
     (auto simp: prim_handles keeps keepsOrResets_afterDestroy keepsOrResets_spawnCaught
        handles_destroyStop handles_destroyRemove handles_destroyCaught keepsOrResets_afterStart)

lemma keepsOrResets_pending: "keepsOrResets w w' \<Longrightarrow> keepsOrResets w (w'\<lparr>pending := ps\<rparr>)"
  by (simp add: keepsOrResets_def isReady_def)

lemma keepsOrResets_settle:
  "keepsOrResets w (settle k r w) \<or> (k < length (pending w) \<and> assignsHandle (pending w ! k) r)"
proof (cases "k < length (pending w)")
  case False
  then show ?thesis by (simp add: settle_def keepsOrResets_refl)
next
  case True
  show ?thesis
  proof (cases "resume (pending w ! k) r w")
    case None
    with True show ?thesis by (simp add: settle_def keepsOrResets_refl)
  next
    case (Some a)
    obtain q w' where a: "a = (q, w')" by (cases a)
    from keepsOrResets_resume[of "pending w ! k" r w a] Some a
    have "keepsOrResets w w' \<or> assignsHandle (pending w ! k) r" by simp
    then show ?thesis
      using True Some a by (cases q) (auto simp: settle_def keepsOrResets_pending)
  qed
qed

lemma keepsOrResets_step: "keepsOrResets w (step e w) \<or> spawnStep w e"
  by (cases e)
     (simp_all add: keepsOrResets_settle keepsOrResets_onEnd keepsOrResets_onError
        keepsOrResets_stdinData keepsOrResets_spawn keeps handles_onData handles_wake handles_elapse
        handles_stop prim_handles)

lemma create_assigns:
  "k < length (pending w) \<Longrightarrow> pending w ! k = SpawnCreate i \<Longrightarrow>
     container (settle k (ResolvedWith c) w) = Some c \<and> ttyStream (settle k (ResolvedWith c) w) = ttyStream w"
  by (simp add: settle_def startContainer_def Let_def prim_defs)

lemma attach_assigns:
  "k < length (pending w) \<Longrightarrow> pending w ! k = SpawnAttach \<Longrightarrow>
     ttyStream (settle k (ResolvedWith s) w) = Some s \<and> container (settle k (ResolvedWith s) w) = container w"
  by (simp add: settle_def prim_defs)

lemma spawn_alone:
  assumes r: "isReady w" and f: "\<not> spawnFails oc" and c: "o_create oc = Inr c" and s: "o_attach oc = Inr s"
  shows "map handles (states (CallRunNewContainer img # spawnScript (length (pending w)) oc) w)
      = [(None, None), (None, None), (None, None), (None, None), (Some c, None), (Some c, None),
         (Some c, Some s)]"
proof -
  let ?k = "length (pending w)"
  let ?M = "snd (runNewContainer img w)"
  let ?i = "spawnImage img w"
  note b = spawn_begin[OF r, of img]
  have k: "?k < length (pending ?M)" by (simp add: b)
  have p: "pending ?M ! ?k = SpawnPing ?i" by (simp add: b)
  from stage_start[OF k p] have s0: "stage ?M ?M ?k (SpawnPing ?i) [] None" by (simp add: b)
  note s1 = stage_spawn_ping[OF s0 k]
  note s2 = stage_spawn_pull[OF s1 k]
  note s3 = stage_spawn_create[OF s2 k, of c]
  note s4 = stage_spawn_start[OF s3 k]
  note s5 = stage_spawn_attach[OF s4 k, of s]
  from f have o: "o_ping oc = None" "o_pull oc = None" "o_start oc = None"
    by (simp_all add: spawnFails_def)
  have e: "spawnScript ?k oc = [Settle ?k Resolved, Settle ?k Resolved, Settle ?k (ResolvedWith c),
      Settle ?k Resolved, Settle ?k (ResolvedWith s)]"
    using f by (simp add: script_defs o c s)
  from r have h0: "handles w = (None, None)" by (simp add: handles_def isReady_def)
  have h1: "handles ?M = (None, None)" by (simp add: handles_def b)
  have h2: "handles (settle ?k Resolved ?M) = (None, None)"
    using s1 by (simp add: handles_def stage_def b)
  have h3: "handles (settle ?k Resolved (settle ?k Resolved ?M)) = (None, None)"
    using s2 by (simp add: handles_def stage_def b)
  have h4: "handles (settle ?k (ResolvedWith c) (settle ?k Resolved (settle ?k Resolved ?M))) = (Some c, None)"
    using s3 by (simp add: handles_def stage_def b)
  have h5: "handles (settle ?k Resolved (settle ?k (ResolvedWith c) (settle ?k Resolved (settle ?k Resolved ?M))))
      = (Some c, None)"
    using s4 by (simp add: handles_def stage_def b)
  have h6: "handles (settle ?k (ResolvedWith s) (settle ?k Resolved (settle ?k (ResolvedWith c)
      (settle ?k Resolved (settle ?k Resolved ?M))))) = (Some c, Some s)"
    by (simp add: handles_def s5)
  show ?thesis
    unfolding e by (simp add: h0 h1 h2 h3 h4 h5 h6)
qed

text \<open>
  C6 as stated fails. In the spawn of the attached session the container handle is assigned
  when the create returns and the stream handle when the attach returns: in the two states
  between, the container is held without the stream. And in the overlapped session, the
  error handler resets the state between the create and the attach of the next spawn: that
  spawn ends with the stream held and the container null, and the executor then refuses every
  further spawn.
\<close>

theorem unpaired_handles_counterexample:
  "container (run [CallRunNewContainer None, Settle 0 Resolved, Settle 0 Resolved, Settle 0 (ResolvedWith 1)] w0)
     = Some 1 \<and>
   ttyStream (run [CallRunNewContainer None, Settle 0 Resolved, Settle 0 Resolved, Settle 0 (ResolvedWith 1)] w0)
     = None \<and>
   run [Settle 0 Resolved, Settle 0 (ResolvedWith 2)]
     (run [CallRunNewContainer None, Settle 0 Resolved, Settle 0 Resolved, Settle 0 (ResolvedWith 1)] w0)
     = attached \<and>
   container (run overlapped attached) = None \<and>
   ttyStream (run overlapped attached) = Some 4 \<and>
   \<not> paired (run overlapped attached) \<and>
   fst (runNewContainer None (run overlapped attached)) = Some AlreadyActive"
proof -
  have i: "held w0 None None [] 0 0 []" by (simp add: held_def newExecutor_def)
  note a1 = held_spawn[OF i, where img=None]
  note a2 = held_spawn_ping[OF a1, where k=0, simplified spawnImage_def, simplified]
  note a3 = held_spawn_pull[OF a2, where k=0, simplified]
  note a4 = held_spawn_create[OF a3, where k=0 and h=1, simplified]
  have 1: "run [CallRunNewContainer None, Settle 0 Resolved, Settle 0 Resolved, Settle 0 (ResolvedWith 1)] w0
      = settle 0 (ResolvedWith (Suc 0)) (settle 0 Resolved (settle 0 Resolved (snd (runNewContainer None w0))))"
    by (simp add: run_Cons run_Nil)
  have 2: "run [Settle 0 Resolved, Settle 0 (ResolvedWith 2)]
     (run [CallRunNewContainer None, Settle 0 Resolved, Settle 0 Resolved, Settle 0 (ResolvedWith 1)] w0)
     = attached"
    by (simp add: attached_run run_Cons run_Nil)
  note h1 = held_stop[OF held_attached]
  note h2 = held_end[OF h1]
  note h3 = held_destroy_ping[OF h2, where k=0 and who=EndHandler, simplified]
  note h4 = held_destroy_stop[OF h3, where k=0 and who=EndHandler, simplified]
  note h5 = held_destroy_remove[OF h4, where k=0 and who=EndHandler, simplified]
  note h6 = held_error[OF h5, where e=writeAfterEnd, simplified]
  note h7 = held_destroy_ping[OF h6, where k=1 and who=ErrorHandler, simplified]
  note h8 = held_destroy_thrown[OF h7 noSuchContainer_thrown, where k=1 and who=ErrorHandler, simplified]
  note h9 = held_destroy_return[OF h8, where k=0 and who=EndHandler, simplified]
  note h10 = held_spawn[OF h9, where img="Some ''debian:stable''", simplified spawnImage_def, simplified]
  note h11 = held_spawn_ping[OF h10, where k=1, simplified]
  note h12 = held_spawn_pull[OF h11, where k=1, simplified]
  note h13 = held_spawn_create[OF h12, where k=1 and h=3, simplified]
  note h14 = held_spawn_start[OF h13, where k=1, simplified]
  note h15 = held_destroy_return[OF h14, where k=0 and who=ErrorHandler, simplified]
  note h16 = held_spawn_attach[OF h15, where k=0 and t=4, simplified]
  from a4 h16 2 show ?thesis
    unfolding 1
    by (simp add: overlapped_def run_Cons run_Nil held_def paired_def runNewContainer_def isReady_def)
qed

text \<open>
  C6, as the code has it. After \<open>resetState\<close> both handles are null. Every event other than
  the return of a create or of an attach to a pending spawn leaves the two handles as they
  were or leaves them both null, and so keeps them paired when they were. The return of a
  create assigns the container handle and leaves the stream handle; the return of an attach
  assigns the stream handle and leaves the container handle. In a spawn on an idle executor
  that succeeds with nothing else in between, both handles are null up to the create, the
  container alone is held from the return of the create to the return of the attach, and both
  are held from then on.
\<close>

theorem handles_pairing_as_implemented:
  "isReady (resetState w) \<and>
   (keepsOrResets w (step e w) \<or> spawnStep w e) \<and>
   (paired w \<and> \<not> spawnStep w e \<longrightarrow> paired (step e w)) \<and>
   (k < length (pending w) \<and> pending w ! k = SpawnCreate i \<longrightarrow>
      container (step (Settle k (ResolvedWith c)) w) = Some c \<and>
      ttyStream (step (Settle k (ResolvedWith c)) w) = ttyStream w) \<and>
   (k < length (pending w) \<and> pending w ! k = SpawnAttach \<longrightarrow>
      ttyStream (step (Settle k (ResolvedWith s)) w) = Some s \<and>
      container (step (Settle k (ResolvedWith s)) w) = container w) \<and>
   (isReady w \<and> \<not> spawnFails oc \<and> o_create oc = Inr c \<and> o_attach oc = Inr s \<longrightarrow>
      map handles (states (CallRunNewContainer img # spawnScript (length (pending w)) oc) w)
        = [(None, None), (None, None), (None, None), (None, None), (Some c, None), (Some c, None),
           (Some c, Some s)])"
proof (intro conjI impI)
  show "isReady (resetState w)" by (simp add: isReady_def prim_handles)
  show "keepsOrResets w (step e w) \<or> spawnStep w e" by (rule keepsOrResets_step)
  show "paired (step e w)" if "paired w \<and> \<not> spawnStep w e"
    using that keepsOrResets_step[of w e] keepsOrResets_paired by blast
  show "container (step (Settle k (ResolvedWith c)) w) = Some c"
    if "k < length (pending w) \<and> pending w ! k = SpawnCreate i"
    using that create_assigns[of k w i c] by simp
  show "ttyStream (step (Settle k (ResolvedWith c)) w) = ttyStream w"
    if "k < length (pending w) \<and> pending w ! k = SpawnCreate i"
    using that create_assigns[of k w i c] by simp
  show "ttyStream (step (Settle k (ResolvedWith s)) w) = Some s"
    if "k < length (pending w) \<and> pending w ! k = SpawnAttach"
    using that attach_assigns[of k w s] by simp
  show "container (step (Settle k (ResolvedWith s)) w) = container w"
    if "k < length (pending w) \<and> pending w ! k = SpawnAttach"
    using that attach_assigns[of k w s] by simp
  show "map handles (states (CallRunNewContainer img # spawnScript (length (pending w)) oc) w)
        = [(None, None), (None, None), (None, None), (None, None), (Some c, None), (Some c, None),
           (Some c, Some s)]"
    if "isReady w \<and> \<not> spawnFails oc \<and> o_create oc = Inr c \<and> o_attach oc = Inr s"
    using that spawn_alone[of w oc c s img] by simp
qed

text \<open>
  The spawn of the attached session, with its create and its attach, and the end of the
  stream of the attached session.
\<close>

theorem handles_pairing_as_implemented_witness:
  "isReady w0 \<and> \<not> spawnFails allOk \<and>
   map handles (states (CallRunNewContainer None # spawnScript 0 allOk) w0)
     = [(None, None), (None, None), (None, None), (None, None), (Some 1, None), (Some 1, None),
        (Some 1, Some 2)] \<and>
   paired attached \<and> paired (step StreamEnd attached) \<and>
   pending (run [CallRunNewContainer None, Settle 0 Resolved, Settle 0 Resolved] w0)
     = [SpawnCreate ''ubuntu:latest''] \<and>
   container (step (Settle 0 (ResolvedWith 1))
                (run [CallRunNewContainer None, Settle 0 Resolved, Settle 0 Resolved] w0)) = Some 1 \<and>
   ttyStream (step (Settle 0 (ResolvedWith 1))
                (run [CallRunNewContainer None, Settle 0 Resolved, Settle 0 Resolved] w0)) = None \<and>
   pending (run [CallRunNewContainer None, Settle 0 Resolved, Settle 0 Resolved,
                 Settle 0 (ResolvedWith 1), Settle 0 Resolved] w0) = [SpawnAttach] \<and>
   ttyStream (step (Settle 0 (ResolvedWith 2))
                (run [CallRunNewContainer None, Settle 0 Resolved, Settle 0 Resolved,
                      Settle 0 (ResolvedWith 1), Settle 0 Resolved] w0)) = Some 2 \<and>
   container (step (Settle 0 (ResolvedWith 2))
                (run [CallRunNewContainer None, Settle 0 Resolved, Settle 0 Resolved,
                      Settle 0 (ResolvedWith 1), Settle 0 Resolved] w0)) = Some 1"
proof -
  let ?m3 = "run [CallRunNewContainer None, Settle 0 Resolved, Settle 0 Resolved] w0"
  let ?m5 = "run [CallRunNewContainer None, Settle 0 Resolved, Settle 0 Resolved,
                 Settle 0 (ResolvedWith 1), Settle 0 Resolved] w0"
  have i: "held w0 None None [] 0 0 []" by (simp add: held_def newExecutor_def)
  note a1 = held_spawn[OF i, where img=None]
  note a2 = held_spawn_ping[OF a1, where k=0, simplified spawnImage_def, simplified]
  note a3 = held_spawn_pull[OF a2, where k=0, simplified]
  note a4 = held_spawn_create[OF a3, where k=0 and h=1, simplified]
  note a5 = held_spawn_start[OF a4, where k=0, simplified]
  from a3 have m3: "pending ?m3 = [SpawnCreate ''ubuntu:latest'']" "ttyStream ?m3 = None"
    by (simp_all add: run_Cons run_Nil held_def newExecutor_def)
  from a5 have m5: "pending ?m5 = [SpawnAttach]" "container ?m5 = Some 1"
    by (simp_all add: run_Cons run_Nil held_def)
  have f: "\<not> spawnFails allOk" by (simp add: spawnFails_def)
  have p: "paired attached" by (simp add: paired_def attached_handles)
  have z: "pending w0 = []" by (simp add: newExecutor_def)
  have h1: "isReady w0 \<and> \<not> spawnFails allOk \<and> o_create allOk = Inr 1 \<and> o_attach allOk = Inr 2"
    using w0_ready f by simp
  have h2: "paired attached \<and> \<not> spawnStep attached StreamEnd" using p by simp
  have h3: "0 < length (pending ?m3) \<and> pending ?m3 ! 0 = SpawnCreate ''ubuntu:latest''"
    using m3 by simp
  have h4: "0 < length (pending ?m5) \<and> pending ?m5 ! 0 = SpawnAttach" using m5 by simp
  note t1 = handles_pairing_as_implemented[where img=None, THEN conjunct2, THEN conjunct2, THEN conjunct2,
      THEN conjunct2, THEN conjunct2, THEN mp, OF h1]
  note t2 = handles_pairing_as_implemented[THEN conjunct2, THEN conjunct2, THEN conjunct1, THEN mp, OF h2]
  note t3 = handles_pairing_as_implemented[where c=1, THEN conjunct2, THEN conjunct2, THEN conjunct2,
      THEN conjunct1, THEN mp, OF h3]
  note t4 = handles_pairing_as_implemented[where s=2, THEN conjunct2, THEN conjunct2, THEN conjunct2,
      THEN conjunct2, THEN conjunct1, THEN mp, OF h4]
  from t1 z have 1: "map handles (states (CallRunNewContainer None # spawnScript 0 allOk) w0)
     = [(None, None), (None, None), (None, None), (None, None), (Some 1, None), (Some 1, None),
        (Some 1, Some 2)]"
    by simp
  from t3 m3 have 3: "container (step (Settle 0 (ResolvedWith 1)) ?m3) = Some 1"
    "ttyStream (step (Settle 0 (ResolvedWith 1)) ?m3) = None"
    by simp_all
  from t4 m5 have 4: "ttyStream (step (Settle 0 (ResolvedWith 2)) ?m5) = Some 2"
    "container (step (Settle 0 (ResolvedWith 2)) ?m5) = Some 1"
    by simp_all
  show ?thesis
    by (intro conjI) (rule w0_ready f 1 p t2 m3 3 m5 4)+
qed

section \<open>Properties of command mode\<close>

lemma key_f12: "onStdin F12 (l, w) = (commandOn [], w\<lparr>terminal := terminal w @ [WriteCommandPrompt]\<rparr>)"
  by (simp add: onStdin_def firstByte_def commandOn_def)

lemma printable_code: "printable [c] = (32 \<le> (of_char c :: nat) \<and> (of_char c :: nat) \<le> 126)"
  by (simp add: printable_def firstByte_def)

lemma key_char:
  assumes "printable [c]"
  shows "onStdin [c] (commandOn acc, w) = (commandOn (acc @ [c]), stdoutWrite [c] w)"
proof -
  from assms have p: "32 \<le> (of_char c :: nat)" "(of_char c :: nat) \<le> 126"
    by (simp_all add: printable_code)
  then have n: "(of_char c :: nat) \<noteq> 3" "(of_char c :: nat) \<noteq> 127" "(of_char c :: nat) \<noteq> 8"
    "(of_char c :: nat) \<noteq> 13" "(of_char c :: nat) \<noteq> 10" by simp_all
  show ?thesis
    using assms n by (simp add: onStdin_def firstByte_def commandOn_def)
qed

lemma key_backspace:
  assumes "bs = BS \<or> bs = DEL"
  shows "onStdin [bs] (commandOn (acc @ [c]), w) = (commandOn acc, stdoutWrite (BS # CHR '' '' # [BS]) w)"
    and "onStdin [bs] (commandOn [], w) = (commandOff, stdoutWrite [LF] w)"
  using assms by (auto simp: onStdin_def firstByte_def commandOn_def)

lemma key_enter:
  assumes "data = [CR] \<or> data = [LF]"
  shows "onStdin data (commandOn acc, w) =
     (commandOff, handleInternalCommand (toUpperCase (trim acc)) (stdoutWrite [LF] w))"
  using assms by (auto simp: onStdin_def firstByte_def commandOn_def)

lemma upper_trim_STATUS: "toUpperCase (trim ''STATUS'') = ''STATUS''"
  by (simp add: toUpperCase_def upperUnits_def trim_def isWhiteSpace_def)

lemma upper_trim_padded: "toUpperCase (trim '' status  '') = ''STATUS''"
  by (simp add: toUpperCase_def upperUnits_def trim_def isWhiteSpace_def)

lemma upper_trim_empty: "toUpperCase (trim []) = []"
  by (simp add: toUpperCase_def trim_def)

lemma handle_STATUS: "handleInternalCommand ''STATUS'' w = updateStatus (statusReport w) w"
  by (simp add: handleInternalCommand_def statusReport_def)

lemma handle_empty: "handleInternalCommand [] w = updateStatus ''Command mode cancelled.'' w"
  by (simp add: handleInternalCommand_def trim_def)

lemma printable_letters:
  "printable ''S''" "printable ''T''" "printable ''A''" "printable ''U''" "printable ''x''"
  by (simp_all add: printable_def firstByte_def)

lemma feed_Cons: "feed (k # ks) lw = feed ks (onStdin k lw)"
  by (simp add: feed_def)

lemma feed_Nil: "feed [] lw = lw"
  by (simp add: feed_def)

lemma statusReport_frame: "statusReport (stdoutWrite s w) = statusReport w"
  by (simp add: statusReport_def stdoutWrite_def)

lemma status_command:
  "feed [F12, ''S'', ''T'', ''A'', ''T'', ''U'', ''S'', [CR]] (l, w) =
     (commandOff,
      updateStatus (statusReport w)
        (w\<lparr>terminal := terminal w @
            [WriteCommandPrompt, Write ''S'', Write ''T'', Write ''A'', Write ''T'', Write ''U'', Write ''S'',
             Write [LF]]\<rparr>))"
proof -
  have "feed [F12, ''S'', ''T'', ''A'', ''T'', ''U'', ''S'', [CR]] (l, w) =
      (commandOff, handleInternalCommand (toUpperCase (trim ''STATUS''))
         (stdoutWrite [LF] (stdoutWrite ''S'' (stdoutWrite ''U'' (stdoutWrite ''T'' (stdoutWrite ''A''
           (stdoutWrite ''T'' (stdoutWrite ''S'' (w\<lparr>terminal := terminal w @ [WriteCommandPrompt]\<rparr>)))))))))"
    by (simp add: feed_Cons feed_Nil key_f12 key_char[OF printable_letters(1)]
          key_char[OF printable_letters(2)] key_char[OF printable_letters(3)]
          key_char[OF printable_letters(4)] key_enter)
  also have "\<dots> = (commandOff,
      updateStatus (statusReport w)
        (w\<lparr>terminal := terminal w @
            [WriteCommandPrompt, Write ''S'', Write ''T'', Write ''A'', Write ''T'', Write ''U'', Write ''S'',
             Write [LF]]\<rparr>))"
    by (simp add: upper_trim_STATUS handle_STATUS statusReport_frame)
       (simp add: stdoutWrite_def statusReport_def)
  finally show ?thesis .
qed

lemma empty_command:
  "feed [F12, [CR]] (l, w) =
     (commandOff,
      updateStatus ''Command mode cancelled.'' (w\<lparr>terminal := terminal w @ [WriteCommandPrompt, Write [LF]]\<rparr>))"
  by (simp add: feed_Cons feed_Nil key_f12 key_enter upper_trim_empty handle_empty stdoutWrite_def)

lemma erase_and_leave:
  assumes "printable [c]" and "bs = BS \<or> bs = DEL"
  shows "feed [F12, [c], [bs], [bs]] (l, w) =
     (commandOff,
      w\<lparr>terminal := terminal w @ [WriteCommandPrompt, Write [c], Write (BS # CHR '' '' # [BS]), Write [LF]]\<rparr>)"
proof -
  let ?w1 = "w\<lparr>terminal := terminal w @ [WriteCommandPrompt]\<rparr>"
  have "feed [F12, [c], [bs], [bs]] (l, w) = onStdin [bs] (onStdin [bs] (onStdin [c] (commandOn [], ?w1)))"
    by (simp add: feed_Cons feed_Nil key_f12)
  also have "\<dots> = onStdin [bs] (onStdin [bs] (commandOn ([] @ [c]), stdoutWrite [c] ?w1))"
    by (simp only: key_char[OF assms(1)])
  also have "\<dots> = onStdin [bs] (commandOn [], stdoutWrite (BS # CHR '' '' # [BS]) (stdoutWrite [c] ?w1))"
    by (simp only: key_backspace(1)[OF assms(2)])
  also have "\<dots> = (commandOff, stdoutWrite [LF] (stdoutWrite (BS # CHR '' '' # [BS]) (stdoutWrite [c] ?w1)))"
    by (simp only: key_backspace(2)[OF assms(2)])
  also have "\<dots> = (commandOff,
      w\<lparr>terminal := terminal w @ [WriteCommandPrompt, Write [c], Write (BS # CHR '' '' # [BS]), Write [LF]]\<rparr>)"
    by (simp add: stdoutWrite_def)
  finally show ?thesis .
qed

text \<open>
  C10 as stated fails in one point: the entry sequence followed at once by enter does not
  cancel silently. On the attached session the status line then reads
  \<open>Command mode cancelled.\<close> in place of the status that was on display.
\<close>

theorem cancel_is_announced_counterexample:
  "statusLine attached = Some ''Container started - TTY session active'' \<and>
   statusLine (snd (feed [F12, [CR]] (commandOff, attached))) = Some ''Command mode cancelled.''"
  by (simp add: attached_status empty_command updateStatus_def)

text \<open>
  C10, as the code has it, for one keyboard listener in any state and any executor.
  The entry sequence, then S, T, A, T, U, S, then enter: the keys are echoed, the status line
  shows the STATUS report with the size of the buffer, nothing else changes and the listener
  is back in pass-through mode. The entry sequence, then enter: the status line shows
  \<open>Command mode cancelled.\<close>, nothing else changes but the echo, and the listener is back in
  pass-through mode. The entry sequence, one printable character, then backspace twice: only
  the echo is written, no command is handled, and the listener is back in pass-through mode.
  In command mode, enter hands the accumulated text, trimmed and in upper case, to
  \<open>handleInternalCommand\<close> and leaves command mode. In pass-through mode a chunk other than
  the interrupt byte and the entry sequence goes to the stream and the mode stays.
\<close>

theorem command_mode_fsm:
  "feed [F12, ''S'', ''T'', ''A'', ''T'', ''U'', ''S'', [CR]] (l, w) =
     (commandOff,
      updateStatus (statusReport w)
        (w\<lparr>terminal := terminal w @
            [WriteCommandPrompt, Write ''S'', Write ''T'', Write ''A'', Write ''T'', Write ''U'', Write ''S'',
             Write [LF]]\<rparr>)) \<and>
   feed [F12, [CR]] (l, w) =
     (commandOff,
      updateStatus ''Command mode cancelled.'' (w\<lparr>terminal := terminal w @ [WriteCommandPrompt, Write [LF]]\<rparr>)) \<and>
   (printable [c] \<and> (bs = BS \<or> bs = DEL) \<longrightarrow>
      feed [F12, [c], [bs], [bs]] (l, w) =
        (commandOff,
         w\<lparr>terminal := terminal w @
              [WriteCommandPrompt, Write [c], Write (BS # CHR '' '' # [BS]), Write [LF]]\<rparr>)) \<and>
   (data = [CR] \<or> data = [LF] \<longrightarrow>
      onStdin data (commandOn acc, w) =
        (commandOff, handleInternalCommand (toUpperCase (trim acc)) (stdoutWrite [LF] w))) \<and>
   (firstByte data \<noteq> Some 3 \<and> data \<noteq> F12 \<longrightarrow>
      onStdin data (commandOff, w) = (commandOff, sendInput data w))"
proof (intro conjI impI)
  show "feed [F12, ''S'', ''T'', ''A'', ''T'', ''U'', ''S'', [CR]] (l, w) =
     (commandOff,
      updateStatus (statusReport w)
        (w\<lparr>terminal := terminal w @
            [WriteCommandPrompt, Write ''S'', Write ''T'', Write ''A'', Write ''T'', Write ''U'', Write ''S'',
             Write [LF]]\<rparr>))"
    by (rule status_command)
  show "feed [F12, [CR]] (l, w) =
     (commandOff,
      updateStatus ''Command mode cancelled.'' (w\<lparr>terminal := terminal w @ [WriteCommandPrompt, Write [LF]]\<rparr>))"
    by (rule empty_command)
next
  assume "printable [c] \<and> (bs = BS \<or> bs = DEL)"
  then show "feed [F12, [c], [bs], [bs]] (l, w) =
        (commandOff,
         w\<lparr>terminal := terminal w @
              [WriteCommandPrompt, Write [c], Write (BS # CHR '' '' # [BS]), Write [LF]]\<rparr>)"
    by (simp add: erase_and_leave)
next
  assume "data = [CR] \<or> data = [LF]"
  then show "onStdin data (commandOn acc, w) =
        (commandOff, handleInternalCommand (toUpperCase (trim acc)) (stdoutWrite [LF] w))"
    by (rule key_enter)
next
  assume "firstByte data \<noteq> Some 3 \<and> data \<noteq> F12"
  then show "onStdin data (commandOff, w) = (commandOff, sendInput data w)"
    by (simp add: onStdin_def commandOff_def)
qed

text \<open>
  On the attached session: x erased with DEL; the text \<open>status\<close> in lower case between
  blanks, submitted, gives the STATUS report; \<open>ls\<close> in pass-through mode goes to the stream.
\<close>

theorem command_mode_fsm_witness:
  "printable ''x'' \<and>
   feed [F12, ''x'', [DEL], [DEL]] (commandOff, attached) =
     (commandOff,
      attached\<lparr>terminal := terminal attached @
                 [WriteCommandPrompt, Write ''x'', Write (BS # CHR '' '' # [BS]), Write [LF]]\<rparr>) \<and>
   onStdin [CR] (commandOn '' status  '', attached) =
     (commandOff, updateStatus (statusReport attached) (stdoutWrite [LF] attached)) \<and>
   firstByte ''ls'' \<noteq> Some 3 \<and> ''ls'' \<noteq> F12 \<and>
   onStdin ''ls'' (commandOff, attached) = (commandOff, sendInput ''ls'' attached)"
proof -
  note t = command_mode_fsm[of commandOff attached "CHR ''x''" DEL "[CR]" "'' status  ''"]
  note u = command_mode_fsm[of commandOff attached "CHR ''x''" DEL "''ls''" "[]"]
  have p: "printable ''x''" by (rule printable_letters)
  have f: "firstByte ''ls'' \<noteq> Some 3" "''ls'' \<noteq> F12" by (simp_all add: firstByte_def)
  from t p have 1: "feed [F12, ''x'', [DEL], [DEL]] (commandOff, attached) =
     (commandOff,
      attached\<lparr>terminal := terminal attached @
                 [WriteCommandPrompt, Write ''x'', Write (BS # CHR '' '' # [BS]), Write [LF]]\<rparr>)"
    by blast
  from t have "onStdin [CR] (commandOn '' status  '', attached) =
     (commandOff, handleInternalCommand (toUpperCase (trim '' status  '')) (stdoutWrite [LF] attached))"
    by blast
  then have 2: "onStdin [CR] (commandOn '' status  '', attached) =
     (commandOff, updateStatus (statusReport attached) (stdoutWrite [LF] attached))"
    by (simp add: upper_trim_padded handle_STATUS statusReport_frame)
  from u f have 3: "onStdin ''ls'' (commandOff, attached) = (commandOff, sendInput ''ls'' attached)"
    by blast
  from p 1 2 3 f show ?thesis by blast
qed

end
